theory Spec2Isabelle
  imports Main "HOL-Library.Word" "HOL-Library.AList" "HOL-Library.Multiset"
begin

section \<open>Values at the HTTP and storage boundaries\<close>

text \<open>
  The program is an HTTP gateway in front of a GridFS bucket. A Go \<open>error\<close> is used by the
  handlers only through \<open>err.Error()\<close> and \<open>err != nil\<close>, so an error is its message and a
  fallible call returns \<open>string + 'a\<close> (\<open>Inl\<close> the message).
\<close>

type_synonym byte = "8 word"
type_synonym bytes = "byte list"

text \<open>\<open>primitive.ObjectID\<close> is \<open>[12]byte\<close>; the width is a hypothesis where it matters.\<close>

type_synonym ObjectID = "byte list"

text \<open>\<open>bson.M\<close> is \<open>map[string]interface{}\<close>: the values the handlers can meet in a decoded
  files document.\<close>

datatype bson =
    BString string
  | BDocument "(string \<times> bson) list"
  | BObjectID ObjectID
  | BInt32 int
  | BInt64 int
  | BDateTime int
  | BNull

type_synonym bsonM = "(string \<times> bson) list"

text \<open>\<open>fiber.Map\<close> values as they are marshalled by \<open>c.JSON\<close>.\<close>

datatype json =
    JBool bool
  | JString string
  | JNumber int
  | JObject "(string \<times> json) list"

datatype body = NoBody | JSONBody json | RawBody bytes

record response =
  status :: nat
  headers :: "(string \<times> string) list"
  body :: body

text \<open>What a handler run ends in: \<open>log.Fatal\<close> (the process exits), a run-time panic, or a
  response.\<close>

datatype outcome = Fatal string | Panic string | Respond response

abbreviation StatusOK :: nat where "StatusOK \<equiv> 200"
abbreviation StatusCreated :: nat where "StatusCreated \<equiv> 201"
abbreviation StatusBadRequest :: nat where "StatusBadRequest \<equiv> 400"
abbreviation StatusNotFound :: nat where "StatusNotFound \<equiv> 404"
abbreviation StatusInternalServerError :: nat where "StatusInternalServerError \<equiv> 500"

text \<open>The response of a fresh \<open>*fiber.Ctx\<close>, and the four methods the handlers call on it.\<close>

definition ctx0 :: response where
  "ctx0 = \<lparr>status = StatusOK, headers = [], body = NoBody\<rparr>"

definition Status :: "nat \<Rightarrow> response \<Rightarrow> response" where
  "Status s c = c\<lparr>status := s\<rparr>"

definition Set_header :: "string \<Rightarrow> string \<Rightarrow> response \<Rightarrow> response" where
  "Set_header k v c = c\<lparr>headers := AList.update k v (headers c)\<rparr>"

definition JSON :: "json \<Rightarrow> response \<Rightarrow> response" where
  "JSON v c = Set_header ''Content-Type'' ''application/json'' (c\<lparr>body := JSONBody v\<rparr>)"

definition Send :: "bytes \<Rightarrow> response \<Rightarrow> response" where
  "Send b c = c\<lparr>body := RawBody b\<rparr>"

text \<open>\<open>fiber.Map{"error": true, "msg": m}\<close>, the body of every failure response in the source.\<close>

definition error_map :: "string \<Rightarrow> json" where
  "error_map m = JObject [(''error'', JBool True), (''msg'', JString m)]"

section \<open>The extension check\<close>

text \<open>
  \<open>regexp.MustCompile(`\.[a-zA-Z0-9]+$`).FindString(name)\<close>: the leftmost match, or the empty
  string when there is none. A match starts at a dot and runs to the end of the text through
  one or more ASCII letters or digits (\<open>$\<close> without the multi-line flag is the end of the text).
\<close>

definition alnum :: "char \<Rightarrow> bool" where
  "alnum c = (let v = (of_char c :: nat) in
     (97 \<le> v \<and> v \<le> 122) \<or> (65 \<le> v \<and> v \<le> 90) \<or> (48 \<le> v \<and> v \<le> 57))"

fun FindString_ext :: "string \<Rightarrow> string" where
  "FindString_ext [] = []"
| "FindString_ext (c # cs) =
     (if c = CHR ''.'' \<and> cs \<noteq> [] \<and> list_all alnum cs then c # cs else FindString_ext cs)"

text \<open>The guard of the upload handler, negated: the file passes the check.\<close>

definition allowed_ext :: "string \<Rightarrow> bool" where
  "allowed_ext fileExtension =
     (\<not> (fileExtension \<noteq> ''.jpg'' \<and> fileExtension \<noteq> ''.jpeg'' \<and> fileExtension \<noteq> ''.png''))"

section \<open>Requests\<close>

text \<open>
  A multipart file part: \<open>fileHeader.Filename\<close>, and what \<open>fileHeader.Open()\<close> followed by
  \<open>io.ReadAll(file)\<close> give; either call may fail.
\<close>

datatype File = File (ReadAll: "string + bytes")

record FileHeader =
  Filename :: string
  Open :: "string + File"

text \<open>
  The part of a request the handlers read: the multipart form (or the error of parsing it) and
  the path parameters of the matched route.
\<close>

record request =
  MultipartForm :: "string + (string \<times> FileHeader) list"
  path_params :: "(string \<times> string) list"

definition FormFile :: "request \<Rightarrow> string \<Rightarrow> string + FileHeader" where
  "FormFile req key =
     (case MultipartForm req of
        Inl err \<Rightarrow> Inl err
      | Inr form \<Rightarrow>
          (case map_of form key of
             None \<Rightarrow> Inl ''there is no uploaded file associated with the given key''
           | Some fh \<Rightarrow> Inr fh))"

definition Params :: "request \<Rightarrow> string \<Rightarrow> string" where
  "Params req key = (case map_of (path_params req) key of None \<Rightarrow> [] | Some v \<Rightarrow> v)"

section \<open>Object identifiers in their hex form\<close>

text \<open>
  Modelled from the spec: the identifier travels as a hex identifier string (section 6) that is
  parsed into the identifier type, malformed input being an error (section 4.3). The functions
  are \<open>ObjectID.Hex\<close> and \<open>primitive.ObjectIDFromHex\<close> of the database driver, which is not
  part of the repository: two lower-case hex digits per byte, 24 digits for the 12 bytes.
\<close>

definition hextable :: string where
  "hextable = ''0123456789abcdef''"

definition hex_byte :: "byte \<Rightarrow> string" where
  "hex_byte b = [hextable ! (unat b div 16), hextable ! (unat b mod 16)]"

definition Hex :: "ObjectID \<Rightarrow> string" where
  "Hex oid = concat (map hex_byte oid)"

text \<open>
  Modelled from the spec: the parsing of the opaque string form into the identifier type
  (section 4.3). \<open>ObjectIDFromHex\<close> is the driver's: exactly 24 hex digits, either case,
  anything else an error.
\<close>

definition fromHexChar :: "char \<Rightarrow> nat option" where
  "fromHexChar c = (let v = (of_char c :: nat) in
     if 48 \<le> v \<and> v \<le> 57 then Some (v - 48)
     else if 97 \<le> v \<and> v \<le> 102 then Some (v - 97 + 10)
     else if 65 \<le> v \<and> v \<le> 70 then Some (v - 65 + 10)
     else None)"

fun hex_Decode :: "string \<Rightarrow> bytes option" where
  "hex_Decode [] = Some []"
| "hex_Decode [c] = None"
| "hex_Decode (c # d # cs) =
     (case (fromHexChar c, fromHexChar d) of
        (Some x, Some y) \<Rightarrow>
          (case hex_Decode cs of None \<Rightarrow> None | Some bs \<Rightarrow> Some (of_nat (16 * x + y) # bs))
      | _ \<Rightarrow> None)"

definition ObjectIDFromHex :: "string \<Rightarrow> string + ObjectID" where
  "ObjectIDFromHex s =
     (if length s \<noteq> 24 then Inl ''the provided hex string is not a valid ObjectID''
      else case hex_Decode s of
             None \<Rightarrow> Inl ''encoding/hex: invalid byte''
           | Some oid \<Rightarrow> Inr oid)"

section \<open>The chunked object store\<close>

text \<open>
  Modelled from the spec: the data model of section 3. The bucket \<open>images\<close> is two collections,
  the metadata records (\<open>images.files\<close>, which the download handlers also query directly) and
  the chunks; \<open>chunkSize\<close> is the fixed configured chunk size, which the source leaves to the
  driver. Lists are in insertion order.
\<close>

record Chunk =
  objectId :: ObjectID
  sequenceNumber :: nat
  data :: bytes

record store =
  files :: "bsonM list"
  chunks :: "Chunk list"
  chunkSize :: nat

text \<open>
  What the outside world decides for one request: the error, if any, of each driver call that
  the source checks or drops, the identifier \<open>OpenUploadStream\<close> draws, and the clock.
  \<open>download_fault = Some (k, e)\<close> is a read that breaks off with error \<open>e\<close> after \<open>k\<close> bytes
  have reached the sink.
\<close>

record env =
  connect_err :: "string option"
  ping_err :: "string option"
  bucket_err :: "string option"
  open_err :: "string option"
  write_err :: "string option"
  close_err :: "string option"
  find_err :: "string option"
  download_fault :: "(nat \<times> string) option"
  new_id :: ObjectID
  now :: int

text \<open>The function \<open>mongoClient\<close> of the source: \<open>log.Fatal\<close> when \<open>mongo.Connect\<close> or
  \<open>client.Ping\<close> fails, the client otherwise.\<close>

definition mongoClient :: "env \<Rightarrow> string + unit" where
  "mongoClient e =
     (case connect_err e of
        Some err \<Rightarrow> Inl err
      | None \<Rightarrow> (case ping_err e of Some err \<Rightarrow> Inl err | None \<Rightarrow> Inr ()))"

text \<open>
  Modelled from the spec: \<open>findById\<close> and \<open>findByFilename\<close> of the object catalog (section 4.2),
  as the source calls them: \<open>FindOne(ctx, fiber.Map{key: v}).Decode(&m)\<close> on \<open>images.files\<close>,
  the first record whose field \<open>key\<close> equals \<open>v\<close>.
\<close>

definition FindOne :: "env \<Rightarrow> bsonM list \<Rightarrow> string \<Rightarrow> bson \<Rightarrow> string + bsonM" where
  "FindOne e coll key v =
     (case find_err e of
        Some err \<Rightarrow> Inl err
      | None \<Rightarrow>
          (case find (\<lambda>d. map_of d key = Some v) coll of
             None \<Rightarrow> Inl ''mongo: no documents in result''
           | Some d \<Rightarrow> Inr d))"

text \<open>\<open>gridfs.NewBucket\<close>: the bucket, or no bucket and an error.\<close>

datatype Bucket = Bucket string

definition NewBucket :: "env \<Rightarrow> string \<Rightarrow> string + Bucket" where
  "NewBucket e name = (case bucket_err e of Some err \<Rightarrow> Inl err | None \<Rightarrow> Inr (Bucket name))"

text \<open>
  Modelled from the spec: fixed-size chunking (section 4.1). The input is cut into sequential
  blocks of \<open>chunkSize\<close> bytes, the last one possibly shorter, and block number \<open>k\<close> becomes the
  chunk with \<open>sequenceNumber = k\<close>, counting from the number given. The spec describes no chunk
  size of 0; the model stores nothing there, and every theorem below assumes a positive size.
\<close>

function split_chunks :: "nat \<Rightarrow> ObjectID \<Rightarrow> nat \<Rightarrow> bytes \<Rightarrow> Chunk list" where
  "split_chunks cs oid k bs =
     (if bs = [] \<or> cs = 0 then []
      else \<lparr>objectId = oid, sequenceNumber = k, data = take cs bs\<rparr>
             # split_chunks cs oid (Suc k) (drop cs bs))"
  by pat_completeness auto
termination
  by (relation "measure (\<lambda>(cs, oid, k, bs). length bs)") auto

declare split_chunks.simps [simp del]

text \<open>
  Modelled from the spec: the upload stream of the chunk store. \<open>OpenUploadStream\<close> draws the
  fresh identifier and keeps the filename and the metadata option; \<open>Write\<close> is the spec's
  \<open>write\<close>: it consumes the whole input, persists its chunks and returns the byte count;
  \<open>Close\<close> is the catalog's \<open>create\<close>: it stores the metadata record. A call that fails
  changes nothing (the spec leaves the store undefined after a failed write).
\<close>

record UploadStream =
  FileID :: ObjectID
  us_filename :: string
  us_metadata :: bson
  us_length :: nat

text \<open>
  Modelled from the spec: step 2 of the upload operation (section 4.3) opens the write with a
  fresh object identifier, the filename and the extension as metadata.
\<close>

definition OpenUploadStream :: "env \<Rightarrow> Bucket \<Rightarrow> string \<Rightarrow> bson \<Rightarrow> string + UploadStream" where
  "OpenUploadStream e bucket filename metadata =
     (case open_err e of
        Some err \<Rightarrow> Inl err
      | None \<Rightarrow> Inr \<lparr>FileID = new_id e, us_filename = filename, us_metadata = metadata,
                      us_length = 0\<rparr>)"

text \<open>
  Modelled from the spec: \<open>write(objectId, filename, contentStream) -> (bytesWritten, error)\<close>
  of the chunk store (section 4.1).
\<close>

definition Write :: "env \<Rightarrow> UploadStream \<Rightarrow> bytes \<Rightarrow> store \<Rightarrow> (string + nat) \<times> UploadStream \<times> store" where
  "Write e us content st =
     (case write_err e of
        Some err \<Rightarrow> (Inl err, us, st)
      | None \<Rightarrow>
          (Inr (length content),
           us\<lparr>us_length := us_length us + length content\<rparr>,
           st\<lparr>chunks := chunks st @ split_chunks (chunkSize st) (FileID us) 0 content\<rparr>))"

text \<open>
  Modelled from the spec: the fields of \<open>ObjectMetadata\<close> (section 3) as a files record: id,
  length, chunk size, creation time, filename, and the metadata that holds the extension.
\<close>

definition files_doc :: "env \<Rightarrow> UploadStream \<Rightarrow> store \<Rightarrow> bsonM" where
  "files_doc e us st =
     [(''_id'', BObjectID (FileID us)),
      (''length'', BInt64 (int (us_length us))),
      (''chunkSize'', BInt32 (int (chunkSize st))),
      (''uploadDate'', BDateTime (now e)),
      (''filename'', BString (us_filename us)),
      (''metadata'', us_metadata us)]"

text \<open>
  Modelled from the spec: \<open>create(filename, length, extension) -> ObjectMetadata\<close> of the object
  catalog (section 4.2), which the driver performs when the stream is closed.
\<close>

definition Close :: "env \<Rightarrow> UploadStream \<Rightarrow> store \<Rightarrow> store" where
  "Close e us st =
     (case close_err e of
        Some err \<Rightarrow> st
      | None \<Rightarrow> st\<lparr>files := files st @ [files_doc e us st]\<rparr>)"

text \<open>
  Modelled from the spec: reassembly (section 4.1), the reads of the chunk store, which are the
  driver's. \<open>readById\<close> takes the chunks of the object in ascending \<open>sequenceNumber\<close> order
  and writes their concatenated bytes to the sink; it fails with NotFound if no chunks exist for
  the id. \<open>readByFilename\<close> resolves the name to the most recently stored matching object and
  then behaves as \<open>readById\<close>. The result of a read is the bytes that reached the sink and the
  error, if any.
\<close>

definition chunks_of :: "store \<Rightarrow> ObjectID \<Rightarrow> Chunk list" where
  "chunks_of st oid = sort_key sequenceNumber (filter (\<lambda>c. objectId c = oid) (chunks st))"

definition reassemble :: "store \<Rightarrow> ObjectID \<Rightarrow> bytes" where
  "reassemble st oid = concat (map data (chunks_of st oid))"

text \<open>
  Modelled from the spec: \<open>readById(objectId, outputSink) -> error\<close> (section 4.1), with the
  request's read fault, if any, cutting the output short.
\<close>

definition DownloadToStream :: "env \<Rightarrow> Bucket \<Rightarrow> store \<Rightarrow> ObjectID \<Rightarrow> bytes \<times> string option" where
  "DownloadToStream e bucket st oid =
     (case download_fault e of
        Some (k, err) \<Rightarrow> (take k (reassemble st oid), Some err)
      | None \<Rightarrow>
          (if chunks_of st oid = [] then ([], Some ''NotFound'')
           else (reassemble st oid, None)))"

text \<open>
  Modelled from the spec: \<open>readByFilename(filename, outputSink) -> error\<close> (section 4.1).
\<close>

definition DownloadToStreamByName :: "env \<Rightarrow> Bucket \<Rightarrow> store \<Rightarrow> string \<Rightarrow> bytes \<times> string option" where
  "DownloadToStreamByName e bucket st name =
     (case find (\<lambda>d. map_of d ''filename'' = Some (BString name)) (rev (files st)) of
        None \<Rightarrow> ([], Some ''NotFound'')
      | Some d \<Rightarrow>
          (case map_of d ''_id'' of
             Some (BObjectID oid) \<Rightarrow> DownloadToStream e bucket st oid
           | _ \<Rightarrow> ([], Some ''NotFound'')))"

section \<open>The handlers\<close>

text \<open>\<open>strconv.Itoa\<close>: the decimal digits, with a minus sign below zero.\<close>

fun digits :: "nat \<Rightarrow> string" where
  "digits k = (if k < 10 then [char_of (48 + k)] else digits (k div 10) @ [char_of (48 + k mod 10)])"

declare digits.simps [simp del]

definition Itoa :: "int \<Rightarrow> string" where
  "Itoa i = (if i < 0 then CHR ''-'' # digits (nat (- i)) else digits (nat i))"

text \<open>
  \<open>setResponseHeaders(c, buff, ext)\<close>. Its result is the value of \<open>c.Next()\<close>, which both
  callers drop; no handler follows on the route, so the response is the one built here.
\<close>

definition setResponseHeaders :: "response \<Rightarrow> bytes \<Rightarrow> string \<Rightarrow> response" where
  "setResponseHeaders c buff ext =
     (let c1 = (if ext = ''.png'' then Set_header ''Content-Type'' ''image/png'' c
                else if ext = ''.jpg'' then Set_header ''Content-Type'' ''image/jpeg'' c
                else if ext = ''.jpeg'' then Set_header ''Content-Type'' ''image/jpeg'' c
                else c);
          c2 = Set_header ''Cache-Control'' ''public, max-age=31536000'' c1
      in Set_header ''Content-Length'' (Itoa (int (length buff))) c2)"

text \<open>
  The upload handler, \<open>app.Post("/api/image", ...)\<close>. The two source files differ in the form
  field they read, \<open>"image"\<close> and \<open>"file"\<close>, and in nothing else, so the field is a parameter.
  \<open>defer uploadStream.Close()\<close> runs on both returns that follow it, and its error is dropped.
\<close>

definition upload :: "string \<Rightarrow> env \<Rightarrow> request \<Rightarrow> store \<Rightarrow> outcome \<times> store" where
  "upload field e req st =
     (case FormFile req field of
        Inl err \<Rightarrow> (Respond (JSON (error_map err) (Status StatusBadRequest ctx0)), st)
      | Inr fileHeader \<Rightarrow>
          (let fileExtension = FindString_ext (Filename fileHeader) in
           if fileExtension \<noteq> ''.jpg'' \<and> fileExtension \<noteq> ''.jpeg'' \<and> fileExtension \<noteq> ''.png''
           then (Respond (JSON (error_map ''Invalid file type'') (Status StatusBadRequest ctx0)), st)
           else
             (case Open fileHeader of
                Inl err \<Rightarrow> (Respond (JSON (error_map err) (Status StatusBadRequest ctx0)), st)
              | Inr file \<Rightarrow>
             (case ReadAll file of
                Inl err \<Rightarrow> (Respond (JSON (error_map err) (Status StatusBadRequest ctx0)), st)
              | Inr content \<Rightarrow>
             (case mongoClient e of
                Inl err \<Rightarrow> (Fatal err, st)
              | Inr db \<Rightarrow>
             (case NewBucket e ''images'' of
                Inl err \<Rightarrow>
                  (Respond (JSON (error_map err) (Status StatusInternalServerError ctx0)), st)
              | Inr bucket \<Rightarrow>
             (case OpenUploadStream e bucket (Filename fileHeader)
                     (BDocument [(''ext'', BString fileExtension)]) of
                Inl err \<Rightarrow>
                  (Respond (JSON (error_map err) (Status StatusInternalServerError ctx0)), st)
              | Inr uploadStream \<Rightarrow>
                  (let fieldId = FileID uploadStream in
                   case Write e uploadStream content st of
                     (Inl err, us', st') \<Rightarrow>
                       (Respond (JSON (error_map err) (Status StatusInternalServerError ctx0)),
                        Close e us' st')
                   | (Inr fileSize, us', st') \<Rightarrow>
                       (Respond (JSON
                          (JObject
                             [(''error'', JBool False),
                              (''msg'', JString ''Image uploaded successfully''),
                              (''image'', JObject
                                 [(''id'', JString (Hex fieldId)),
                                  (''name'', JString (Filename fileHeader)),
                                  (''size'', JNumber (int fileSize))])])
                          (Status StatusCreated ctx0)),
                        Close e us' st')))))))))"

definition upload_part_000 :: "env \<Rightarrow> request \<Rightarrow> store \<Rightarrow> outcome \<times> store" where
  "upload_part_000 = upload ''image''"

definition upload_main :: "env \<Rightarrow> request \<Rightarrow> store \<Rightarrow> outcome \<times> store" where
  "upload_main = upload ''file''"

text \<open>
  \<open>avatarMetadata["metadata"].(bson.M)["ext"].(string)\<close>: a missing key reads as nil, and a
  type assertion on nil or on a value of another type panics. \<open>None\<close> is the panic.
\<close>

definition metadata_ext :: "bsonM \<Rightarrow> string option" where
  "metadata_ext avatarMetadata =
     (case map_of avatarMetadata ''metadata'' of
        Some (BDocument m) \<Rightarrow> (case map_of m ''ext'' of Some (BString s) \<Rightarrow> Some s | _ \<Rightarrow> None)
      | _ \<Rightarrow> None)"

text \<open>
  The tail the two download handlers share: the bucket (its error dropped, so a failed
  \<open>NewBucket\<close> leaves a nil bucket whose method call panics), the download into the buffer
  (its error dropped), the headers, the body.
\<close>

definition send_image :: "bsonM \<Rightarrow> string + Bucket \<Rightarrow> (Bucket \<Rightarrow> bytes \<times> string option) \<Rightarrow> outcome" where
  "send_image avatarMetadata bucket download =
     (case bucket of
        Inl err \<Rightarrow> Panic ''invalid memory address or nil pointer dereference''
      | Inr b \<Rightarrow>
          (let buffer = fst (download b) in
           case metadata_ext avatarMetadata of
             None \<Rightarrow> Panic ''interface conversion''
           | Some ext \<Rightarrow> Respond (Send buffer (setResponseHeaders ctx0 buffer ext))))"

text \<open>\<open>app.Get("/api/image/id/:id", ...)\<close>.\<close>

definition get_by_id :: "env \<Rightarrow> request \<Rightarrow> store \<Rightarrow> outcome \<times> store" where
  "get_by_id e req st =
     (case ObjectIDFromHex (Params req ''id'') of
        Inl err \<Rightarrow> (Respond (JSON (error_map err) (Status StatusBadRequest ctx0)), st)
      | Inr oid \<Rightarrow>
          (case mongoClient e of
             Inl err \<Rightarrow> (Fatal err, st)
           | Inr db \<Rightarrow>
               (case FindOne e (files st) ''_id'' (BObjectID oid) of
                  Inl err \<Rightarrow>
                    (Respond (JSON (error_map ''Avatar not found'') (Status StatusNotFound ctx0)), st)
                | Inr avatarMetadata \<Rightarrow>
                    (send_image avatarMetadata (NewBucket e ''images'')
                       (\<lambda>bucket. DownloadToStream e bucket st oid), st))))"

text \<open>\<open>app.Get("/api/image/name/:name", ...)\<close>.\<close>

definition get_by_name :: "env \<Rightarrow> request \<Rightarrow> store \<Rightarrow> outcome \<times> store" where
  "get_by_name e req st =
     (let name = Params req ''name'' in
      case mongoClient e of
        Inl err \<Rightarrow> (Fatal err, st)
      | Inr db \<Rightarrow>
          (case FindOne e (files st) ''filename'' (BString name) of
             Inl err \<Rightarrow>
               (Respond (JSON (error_map ''Avatar not found'') (Status StatusNotFound ctx0)), st)
           | Inr avatarMetadata \<Rightarrow>
               (send_image avatarMetadata (NewBucket e ''images'')
                  (\<lambda>bucket. DownloadToStreamByName e bucket st name), st)))"

section \<open>The vocabulary of the specification\<close>

text \<open>
  The specification speaks of a filename that ends in an extension (a case-sensitive suffix
  match); \<open>HasSuffix\<close> is that test, as \<open>strings.HasSuffix\<close> computes it.
\<close>

definition HasSuffix :: "string \<Rightarrow> string \<Rightarrow> bool" where
  "HasSuffix s suffix = (length suffix \<le> length s \<and> drop (length s - length suffix) s = suffix)"

definition ends_in_allowed :: "string \<Rightarrow> bool" where
  "ends_in_allowed name =
     (HasSuffix name ''.jpg'' \<or> HasSuffix name ''.jpeg'' \<or> HasSuffix name ''.png'')"

text \<open>A request during which no driver call fails.\<close>

definition no_faults :: "env \<Rightarrow> bool" where
  "no_faults e = (connect_err e = None \<and> ping_err e = None \<and> bucket_err e = None \<and>
     open_err e = None \<and> write_err e = None \<and> close_err e = None \<and> find_err e = None \<and>
     download_fault e = None)"

text \<open>The response \<open>c.Status(s).JSON(fiber.Map{"error": true, "msg": m})\<close>, written out.\<close>

definition error_response :: "nat \<Rightarrow> string \<Rightarrow> response" where
  "error_response s m =
     \<lparr>status = s, headers = [(''Content-Type'', ''application/json'')],
      body = JSONBody (JObject [(''error'', JBool True), (''msg'', JString m)])\<rparr>"

text \<open>
  Reading a decimal header value back, as \<open>strconv.ParseUint(s, 10, 64)\<close> does: the number a
  client takes a \<open>Content-Length\<close> for.
\<close>

definition digit_val :: "char \<Rightarrow> nat option" where
  "digit_val c = (let v = (of_char c :: nat) in if 48 \<le> v \<and> v \<le> 57 then Some (v - 48) else None)"

fun parse_digits :: "nat \<Rightarrow> string \<Rightarrow> nat option" where
  "parse_digits a [] = Some a"
| "parse_digits a (c # cs) =
     (case digit_val c of None \<Rightarrow> None | Some d \<Rightarrow> parse_digits (10 * a + d) cs)"

definition ParseUint :: "string \<Rightarrow> nat option" where
  "ParseUint s = (if s = [] then None else parse_digits 0 s)"

section \<open>Sample inputs\<close>

definition quiet :: env where
  "quiet = \<lparr>connect_err = None, ping_err = None, bucket_err = None, open_err = None,
     write_err = None, close_err = None, find_err = None, download_fault = None,
     new_id = [1, 2, 3, 4, 5, 6, 7, 8, 9, 10, 11, 12], now = 0\<rparr>"

definition empty_store :: store where
  "empty_store = \<lparr>files = [], chunks = [], chunkSize = 4\<rparr>"

definition post_of :: "string \<Rightarrow> string \<Rightarrow> bytes \<Rightarrow> request" where
  "post_of field name content =
     \<lparr>MultipartForm = Inr [(field, \<lparr>Filename = name, Open = Inr (File (Inr content))\<rparr>)],
      path_params = []\<rparr>"

definition get_of :: "string \<Rightarrow> string \<Rightarrow> request" where
  "get_of key v =
     \<lparr>MultipartForm = Inl ''request Content-Type has bad boundary or is not multipart/form-data'',
      path_params = [(key, v)]\<rparr>"

text \<open>The store after one upload of five bytes, after an upload of no bytes, and a store whose
  only record was not written by the upload handler.\<close>

definition stored :: store where
  "stored = snd (upload ''image'' quiet (post_of ''image'' ''a.png'' [1, 2, 3, 4, 5]) empty_store)"

definition empty_upload :: store where
  "empty_upload = snd (upload ''image'' quiet (post_of ''image'' ''a.png'' []) empty_store)"

definition bare_record :: store where
  "bare_record =
     \<lparr>files = [[(''_id'', BObjectID [1, 2, 3, 4, 5, 6, 7, 8, 9, 10, 11, 12]),
                 (''filename'', BString ''a.png'')]],
      chunks = [], chunkSize = 4\<rparr>"

text \<open>A request during which the chunk read breaks off after two bytes, and a store that holds
  the chunks of one object out of order, among another object's.\<close>

definition broken_read :: env where
  "broken_read = quiet\<lparr>download_fault := Some (2, ''unexpected EOF'')\<rparr>"

definition shuffled :: store where
  "shuffled =
     \<lparr>files = [],
      chunks = [\<lparr>objectId = [7], sequenceNumber = 1, data = [5]\<rparr>,
                \<lparr>objectId = [8], sequenceNumber = 0, data = [9, 9]\<rparr>,
                \<lparr>objectId = [7], sequenceNumber = 0, data = [1, 2, 3, 4]\<rparr>],
      chunkSize = 4\<rparr>"

text \<open>A store with two objects of different types, and a request during which \<open>Write\<close>
  fails.\<close>

definition two_records :: store where
  "two_records =
     \<lparr>files = [[(''_id'', BObjectID [1, 2, 3, 4, 5, 6, 7, 8, 9, 10, 11, 12]),
                 (''filename'', BString ''a.jpg''),
                 (''metadata'', BDocument [(''ext'', BString ''.jpg'')])],
                [(''_id'', BObjectID [12, 11, 10, 9, 8, 7, 6, 5, 4, 3, 2, 1]),
                 (''filename'', BString ''b.png''),
                 (''metadata'', BDocument [(''ext'', BString ''.png'')])]],
      chunks = [\<lparr>objectId = [12, 11, 10, 9, 8, 7, 6, 5, 4, 3, 2, 1], sequenceNumber = 0,
                  data = [9, 8]\<rparr>],
      chunkSize = 4\<rparr>"

definition write_fails :: env where
  "write_fails = quiet\<lparr>write_err := Some ''write failed''\<rparr>"

section \<open>The extension check accepts exactly the three suffixes\<close>

lemma alnum_dot: "\<not> alnum CHR ''.''"
  by (simp add: alnum_def)

lemma FindString_ext_suffix:
  "t \<noteq> [] \<Longrightarrow> list_all alnum t \<Longrightarrow> FindString_ext (p @ CHR ''.'' # t) = CHR ''.'' # t"
  by (induction p) (auto simp: alnum_dot)

lemma FindString_ext_is_suffix:
  "FindString_ext s = r \<Longrightarrow> r \<noteq> [] \<Longrightarrow> \<exists>p. s = p @ r"
proof (induction s)
  case Nil
  then show ?case by simp
next
  case (Cons c cs)
  show ?case
  proof (cases "c = CHR ''.'' \<and> cs \<noteq> [] \<and> list_all alnum cs")
    case True
    with Cons.prems have "r = c # cs" by simp
    then show ?thesis by simp
  next
    case False
    with Cons.prems have "FindString_ext cs = r" by auto
    with Cons.IH Cons.prems obtain p where "cs = p @ r" by blast
    then have "c # cs = (c # p) @ r" by simp
    then show ?thesis by blast
  qed
qed

lemma FindString_ext_allowed:
  "FindString_ext (p @ ''.jpg'') = ''.jpg''"
  "FindString_ext (p @ ''.jpeg'') = ''.jpeg''"
  "FindString_ext (p @ ''.png'') = ''.png''"
  using FindString_ext_suffix[of "''jpg''" p] FindString_ext_suffix[of "''jpeg''" p]
    FindString_ext_suffix[of "''png''" p]
  by (simp_all add: alnum_def)

lemma HasSuffix_iff: "HasSuffix s e \<longleftrightarrow> (\<exists>p. s = p @ e)"
proof
  assume "HasSuffix s e"
  then have "s = take (length s - length e) s @ e"
    unfolding HasSuffix_def by (metis append_take_drop_id)
  then show "\<exists>p. s = p @ e" ..
next
  assume "\<exists>p. s = p @ e"
  then show "HasSuffix s e" by (auto simp: HasSuffix_def)
qed

lemma allowed_iff_ends: "allowed_ext (FindString_ext name) \<longleftrightarrow> ends_in_allowed name"
proof
  assume "allowed_ext (FindString_ext name)"
  then consider "FindString_ext name = ''.jpg''" | "FindString_ext name = ''.jpeg''"
    | "FindString_ext name = ''.png''"
    unfolding allowed_ext_def by blast
  then show "ends_in_allowed name"
  proof cases
    case 1
    from FindString_ext_is_suffix[OF 1] show ?thesis
      by (simp add: ends_in_allowed_def HasSuffix_iff)
  next
    case 2
    from FindString_ext_is_suffix[OF 2] show ?thesis
      by (simp add: ends_in_allowed_def HasSuffix_iff)
  next
    case 3
    from FindString_ext_is_suffix[OF 3] show ?thesis
      by (simp add: ends_in_allowed_def HasSuffix_iff)
  qed
next
  assume "ends_in_allowed name"
  then show "allowed_ext (FindString_ext name)"
    by (auto simp: ends_in_allowed_def HasSuffix_iff allowed_ext_def FindString_ext_allowed)
qed

section \<open>The upload handler\<close>

lemma error_response_eq: "JSON (error_map m) (Status s ctx0) = error_response s m"
  by (simp add: JSON_def Status_def ctx0_def Set_header_def error_map_def error_response_def)

lemma status_JSON [simp]: "status (JSON v (Status s c)) = s"
  by (simp add: JSON_def Status_def Set_header_def)

lemma body_JSON [simp]: "body (JSON v c) = JSONBody v"
  by (simp add: JSON_def Set_header_def)

lemma upload_invalid_type:
  assumes "FormFile req field = Inr fh" and "\<not> allowed_ext (FindString_ext (Filename fh))"
  shows "upload field e req st = (Respond (error_response StatusBadRequest ''Invalid file type''), st)"
  using assms by (simp add: upload_def allowed_ext_def Let_def error_response_eq)

lemma upload_no_faults:
  assumes "FormFile req field = Inr fh" and "allowed_ext (FindString_ext (Filename fh))"
    and "Open fh = Inr (File (Inr content))" and "no_faults e"
  shows "upload field e req st =
    (Respond (JSON (JObject [(''error'', JBool False),
        (''msg'', JString ''Image uploaded successfully''),
        (''image'', JObject [(''id'', JString (Hex (new_id e))),
                             (''name'', JString (Filename fh)),
                             (''size'', JNumber (int (length content)))])])
       (Status StatusCreated ctx0)),
     st\<lparr>chunks := chunks st @ split_chunks (chunkSize st) (new_id e) 0 content,
        files := files st @
          [[(''_id'', BObjectID (new_id e)),
            (''length'', BInt64 (int (length content))),
            (''chunkSize'', BInt32 (int (chunkSize st))),
            (''uploadDate'', BDateTime (now e)),
            (''filename'', BString (Filename fh)),
            (''metadata'', BDocument [(''ext'', BString (FindString_ext (Filename fh)))])]]\<rparr>)"
  using assms
  by (auto simp: upload_def allowed_ext_def Let_def no_faults_def mongoClient_def NewBucket_def
      OpenUploadStream_def Write_def Close_def files_doc_def)

text \<open>
  C5. An upload whose file part is present passes the extension check (the regexp match is one
  of the three allowed strings) exactly when its filename ends, case-sensitively, in \<open>.jpg\<close>,
  \<open>.jpeg\<close> or \<open>.png\<close>: every other filename, \<open>a.PNG\<close> and a name without a dot included, is answered
  with status 400 and the message "Invalid file type", whatever the environment, and a filename
  with one of the three suffixes is stored and answered with 201 once the file can be read and
  no driver call fails.
\<close>

theorem extension_check_is_suffix_match:
  assumes "FormFile req field = Inr fh"
  shows "(allowed_ext (FindString_ext (Filename fh)) \<longleftrightarrow> ends_in_allowed (Filename fh))
       \<and> (\<not> ends_in_allowed (Filename fh) \<longrightarrow>
            upload field e req st =
              (Respond (error_response StatusBadRequest ''Invalid file type''), st))
       \<and> (ends_in_allowed (Filename fh) \<longrightarrow> no_faults e \<longrightarrow> Open fh = Inr (File (Inr content)) \<longrightarrow>
            (\<exists>r st'. upload field e req st = (Respond r, st') \<and> status r = StatusCreated))"
  using assms upload_invalid_type[of req field fh e st]
    upload_no_faults[of req field fh content e st]
  by (simp add: allowed_iff_ends)

theorem extension_check_is_suffix_match_witness:
  "upload ''image'' quiet (post_of ''image'' ''a.PNG'' [1, 2, 3]) empty_store =
     (Respond (error_response 400 ''Invalid file type''), empty_store)
   \<and> upload ''image'' quiet (post_of ''image'' ''photo'' [1, 2, 3]) empty_store =
     (Respond (error_response 400 ''Invalid file type''), empty_store)
   \<and> (\<exists>r st'. upload ''image'' quiet (post_of ''image'' ''a.png'' [1, 2, 3]) empty_store
                  = (Respond r, st')
         \<and> status r = StatusCreated)"
  using extension_check_is_suffix_match [of "post_of ''image'' ''a.PNG'' [1, 2, 3]" "''image''"
            "\<lparr>Filename = ''a.PNG'', Open = Inr (File (Inr [1, 2, 3]))\<rparr>" quiet empty_store
            "[1, 2, 3]"]
        extension_check_is_suffix_match [of "post_of ''image'' ''photo'' [1, 2, 3]" "''image''"
            "\<lparr>Filename = ''photo'', Open = Inr (File (Inr [1, 2, 3]))\<rparr>" quiet empty_store
            "[1, 2, 3]"]
        extension_check_is_suffix_match [of "post_of ''image'' ''a.png'' [1, 2, 3]" "''image''"
            "\<lparr>Filename = ''a.png'', Open = Inr (File (Inr [1, 2, 3]))\<rparr>" quiet empty_store
            "[1, 2, 3]"]
  by (simp add: FormFile_def post_of_def ends_in_allowed_def HasSuffix_def no_faults_def quiet_def)

text \<open>
  C8. The upload handler takes the file from one multipart form field, \<open>image\<close> in one source
  file and \<open>file\<close> in the other: a request for which \<open>FormFile\<close> of that field fails is
  answered with status 400 and the error's message and leaves the store as it was, and two
  requests that agree on that field are handled alike.
\<close>

theorem missing_file_is_bad_request:
  "(FormFile req ''image'' = Inl err \<longrightarrow>
      upload_part_000 e req st = (Respond (error_response StatusBadRequest err), st))
   \<and> (FormFile req ''file'' = Inl err \<longrightarrow>
      upload_main e req st = (Respond (error_response StatusBadRequest err), st))
   \<and> (FormFile req ''image'' = FormFile req' ''image'' \<longrightarrow>
      upload_part_000 e req st = upload_part_000 e req' st)
   \<and> (FormFile req ''file'' = FormFile req' ''file'' \<longrightarrow>
      upload_main e req st = upload_main e req' st)"
  by (simp add: upload_part_000_def upload_main_def upload_def error_response_eq)

theorem missing_file_is_bad_request_witness:
  "upload_part_000 quiet (post_of ''file'' ''a.png'' [7]) empty_store =
      (Respond (error_response 400 ''there is no uploaded file associated with the given key''),
       empty_store)
   \<and> upload_main quiet (post_of ''image'' ''a.png'' [7]) empty_store =
      (Respond (error_response 400 ''there is no uploaded file associated with the given key''),
       empty_store)
   \<and> upload_part_000 quiet
        ((post_of ''image'' ''a.png'' [7])\<lparr>path_params := [(''x'', ''y'')]\<rparr>) empty_store =
      upload_part_000 quiet (post_of ''image'' ''a.png'' [7]) empty_store
   \<and> upload_main quiet
        ((post_of ''file'' ''a.png'' [7])\<lparr>path_params := [(''x'', ''y'')]\<rparr>) empty_store =
      upload_main quiet (post_of ''file'' ''a.png'' [7]) empty_store"
  using missing_file_is_bad_request [of "post_of ''file'' ''a.png'' [7]"
      "''there is no uploaded file associated with the given key''" quiet empty_store
      "post_of ''file'' ''a.png'' [7]"]
    missing_file_is_bad_request [of "post_of ''image'' ''a.png'' [7]"
      "''there is no uploaded file associated with the given key''" quiet empty_store
      "post_of ''image'' ''a.png'' [7]"]
    missing_file_is_bad_request
      [of "(post_of ''image'' ''a.png'' [7])\<lparr>path_params := [(''x'', ''y'')]\<rparr>" "[]" quiet
        empty_store "post_of ''image'' ''a.png'' [7]"]
    missing_file_is_bad_request
      [of "(post_of ''file'' ''a.png'' [7])\<lparr>path_params := [(''x'', ''y'')]\<rparr>" "[]" quiet
        empty_store "post_of ''file'' ''a.png'' [7]"]
  by (simp add: FormFile_def post_of_def)

section \<open>Decimal numerals\<close>

lemma digit_val_char_of: "d < 10 \<Longrightarrow> digit_val (char_of (48 + d)) = Some d"
  by (simp add: digit_val_def Let_def)

lemma parse_digits_snoc:
  "parse_digits a (xs @ [c]) =
     (case parse_digits a xs of None \<Rightarrow> None
      | Some v \<Rightarrow> (case digit_val c of None \<Rightarrow> None | Some d \<Rightarrow> Some (10 * v + d)))"
  by (induction xs arbitrary: a) (auto split: option.splits)

lemma parse_digits_digits: "parse_digits 0 (digits k) = Some k"
proof (induction k rule: digits.induct)
  case (1 k)
  show ?case
  proof (cases "k < 10")
    case True
    then show ?thesis by (simp add: digits.simps[of k] digit_val_char_of)
  next
    case False
    then have "parse_digits 0 (digits (k div 10)) = Some (k div 10)" using 1 by simp
    moreover have "digit_val (char_of (48 + k mod 10)) = Some (k mod 10)"
      by (rule digit_val_char_of) simp
    ultimately show ?thesis using False
      by (simp add: digits.simps[of k] parse_digits_snoc)
  qed
qed

lemma digits_nonempty: "digits k \<noteq> []"
  by (subst digits.simps) simp

lemma ParseUint_Itoa: "ParseUint (Itoa (int k)) = Some k"
  by (simp add: ParseUint_def Itoa_def digits_nonempty parse_digits_digits)

lemma Itoa_5: "Itoa 5 = ''5''"
  by code_simp

lemma Itoa_0: "Itoa 0 = ''0''"
  by code_simp

section \<open>Sample inputs, evaluated\<close>

lemma quiet_no_faults: "no_faults quiet"
  by (simp add: no_faults_def quiet_def)

lemma sample_lookups:
  "mongoClient quiet = Inr ()"
  "Params (get_of key v) key = v"
  "FindOne quiet (files empty_store) key' x = Inl ''mongo: no documents in result''"
  by (simp_all add: mongoClient_def quiet_def Params_def get_of_def FindOne_def empty_store_def)

lemma sample_form:
  "FormFile (post_of field name content) field =
     Inr \<lparr>Filename = name, Open = Inr (File (Inr content))\<rparr>"
  by (simp add: FormFile_def post_of_def)

lemma sample_hex: "ObjectIDFromHex ''0102030405060708090a0b0c'' = Inr [1, 2, 3, 4, 5, 6, 7, 8, 9, 10, 11, 12]"
  by (simp add: ObjectIDFromHex_def fromHexChar_def)

lemma stored_eq:
  "stored =
    \<lparr>files = [[(''_id'', BObjectID [1, 2, 3, 4, 5, 6, 7, 8, 9, 10, 11, 12]),
                (''length'', BInt64 5), (''chunkSize'', BInt32 4), (''uploadDate'', BDateTime 0),
                (''filename'', BString ''a.png''),
                (''metadata'', BDocument [(''ext'', BString ''.png'')])]],
     chunks = [\<lparr>objectId = [1, 2, 3, 4, 5, 6, 7, 8, 9, 10, 11, 12], sequenceNumber = 0,
                 data = [1, 2, 3, 4]\<rparr>,
               \<lparr>objectId = [1, 2, 3, 4, 5, 6, 7, 8, 9, 10, 11, 12], sequenceNumber = 1,
                 data = [5]\<rparr>],
     chunkSize = 4\<rparr>"
  by (simp add: stored_def upload_def post_of_def FormFile_def quiet_def empty_store_def
      alnum_def Let_def mongoClient_def NewBucket_def OpenUploadStream_def Write_def Close_def
      files_doc_def split_chunks.simps)

lemma empty_upload_eq:
  "empty_upload =
    \<lparr>files = [[(''_id'', BObjectID [1, 2, 3, 4, 5, 6, 7, 8, 9, 10, 11, 12]),
                (''length'', BInt64 0), (''chunkSize'', BInt32 4), (''uploadDate'', BDateTime 0),
                (''filename'', BString ''a.png''),
                (''metadata'', BDocument [(''ext'', BString ''.png'')])]],
     chunks = [], chunkSize = 4\<rparr>"
  by (simp add: empty_upload_def upload_def post_of_def FormFile_def quiet_def empty_store_def
      alnum_def Let_def mongoClient_def NewBucket_def OpenUploadStream_def Write_def Close_def
      files_doc_def split_chunks.simps)

lemma stored_doc:
  "find_err e' = None \<Longrightarrow>
     FindOne e' (files stored) ''_id'' (BObjectID [1, 2, 3, 4, 5, 6, 7, 8, 9, 10, 11, 12]) =
       Inr (hd (files stored))"
  "find_err e' = None \<Longrightarrow>
     FindOne e' (files stored) ''filename'' (BString ''a.png'') = Inr (hd (files stored))"
  "metadata_ext (hd (files stored)) = Some ''.png''"
  by (simp_all add: FindOne_def stored_eq metadata_ext_def)

section \<open>The download handlers\<close>

lemma FindOne_in_files: "FindOne e coll key v = Inr d \<Longrightarrow> d \<in> set coll \<and> map_of d key = Some v"
  by (auto simp: FindOne_def find_Some_iff split: option.splits)

lemma FindOne_cases:
  assumes "find_err e = None"
  shows "(\<exists>m. FindOne e coll key v = Inl m) \<longleftrightarrow> \<not> (\<exists>d\<in>set coll. map_of d key = Some v)"
  using assms by (auto simp: FindOne_def find_None_iff find_Some_iff split: option.splits)

lemma send_image_Respond:
  "send_image doc bk dl = Respond r \<Longrightarrow>
     \<exists>b ext. bk = Inr b \<and> metadata_ext doc = Some ext \<and>
       r = Send (fst (dl b)) (setResponseHeaders ctx0 (fst (dl b)) ext)"
  by (auto simp: send_image_def Let_def split: sum.splits option.splits)

lemma send_image_ok:
  assumes "bucket_err e = None" and "metadata_ext doc = Some ext"
  shows "send_image doc (NewBucket e name) dl =
    Respond (Send (fst (dl (Bucket name))) (setResponseHeaders ctx0 (fst (dl (Bucket name))) ext))"
  using assms by (simp add: send_image_def NewBucket_def Let_def)


lemma image_response:
  "Send buf (setResponseHeaders ctx0 buf ext) =
     \<lparr>status = StatusOK,
      headers = (if ext = ''.png'' then [(''Content-Type'', ''image/png'')]
                 else if ext = ''.jpg'' \<or> ext = ''.jpeg'' then [(''Content-Type'', ''image/jpeg'')]
                 else [])
                @ [(''Cache-Control'', ''public, max-age=31536000''),
                   (''Content-Length'', Itoa (int (length buf)))],
      body = RawBody buf\<rparr>"
  by (simp add: Send_def setResponseHeaders_def Let_def Set_header_def ctx0_def)

lemma send_image_not_404: "send_image doc bk dl \<noteq> Respond (error_response StatusNotFound m)"
  by (auto simp: send_image_def Let_def image_response error_response_def
      split: sum.splits option.splits)

lemma get_by_id_not_found:
  assumes "ObjectIDFromHex (Params req ''id'') = Inr oid" and "mongoClient e = Inr ()"
    and "FindOne e (files st) ''_id'' (BObjectID oid) = Inl m"
  shows "get_by_id e req st = (Respond (error_response StatusNotFound ''Avatar not found''), st)"
  using assms by (simp add: get_by_id_def error_response_eq)

lemma get_by_name_not_found:
  assumes "mongoClient e = Inr ()"
    and "FindOne e (files st) ''filename'' (BString (Params req ''name'')) = Inl m"
  shows "get_by_name e req st = (Respond (error_response StatusNotFound ''Avatar not found''), st)"
  using assms by (simp add: get_by_name_def error_response_eq)

lemma get_by_id_found:
  assumes "ObjectIDFromHex (Params req ''id'') = Inr oid" and "mongoClient e = Inr ()"
    and "FindOne e (files st) ''_id'' (BObjectID oid) = Inr doc"
  shows "get_by_id e req st =
    (send_image doc (NewBucket e ''images'') (\<lambda>bucket. DownloadToStream e bucket st oid), st)"
  using assms by (simp add: get_by_id_def)

lemma get_by_name_found:
  assumes "mongoClient e = Inr ()"
    and "FindOne e (files st) ''filename'' (BString (Params req ''name'')) = Inr doc"
  shows "get_by_name e req st =
    (send_image doc (NewBucket e ''images'')
       (\<lambda>bucket. DownloadToStreamByName e bucket st (Params req ''name'')), st)"
  using assms by (simp add: get_by_name_def Let_def)

lemma metadata_ext_Some:
  "metadata_ext doc = Some ext \<longleftrightarrow>
     (\<exists>m. map_of doc ''metadata'' = Some (BDocument m) \<and> map_of m ''ext'' = Some (BString ext))"
  by (auto simp: metadata_ext_def split: option.splits bson.splits)

lemma get_by_id_OK_found:
  assumes "get_by_id e req st = (Respond r, st')" and "status r = StatusOK"
  shows "\<exists>oid doc ext. ObjectIDFromHex (Params req ''id'') = Inr oid
           \<and> FindOne e (files st) ''_id'' (BObjectID oid) = Inr doc
           \<and> metadata_ext doc = Some ext
           \<and> r = Send (fst (DownloadToStream e (Bucket ''images'') st oid))
                  (setResponseHeaders ctx0 (fst (DownloadToStream e (Bucket ''images'') st oid)) ext)"
  using assms
  by (auto simp: get_by_id_def error_response_eq error_response_def NewBucket_def
      split: sum.splits option.splits dest!: send_image_Respond)

lemma get_by_name_OK_found:
  assumes "get_by_name e req st = (Respond r, st')" and "status r = StatusOK"
  shows "\<exists>doc ext. FindOne e (files st) ''filename'' (BString (Params req ''name'')) = Inr doc
           \<and> metadata_ext doc = Some ext
           \<and> r = Send (fst (DownloadToStreamByName e (Bucket ''images'') st (Params req ''name'')))
                  (setResponseHeaders ctx0
                     (fst (DownloadToStreamByName e (Bucket ''images'') st (Params req ''name''))) ext)"
  using assms
  by (auto simp: get_by_name_def Let_def error_response_eq error_response_def NewBucket_def
      split: sum.splits option.splits dest!: send_image_Respond)

lemma image_response_headers:
  assumes "r = Send buf (setResponseHeaders ctx0 buf ext)"
  shows "status r = StatusOK" and "body r = RawBody buf"
    and "map_of (headers r) ''Content-Type'' =
           (if ext = ''.png'' then Some ''image/png''
            else if ext = ''.jpg'' \<or> ext = ''.jpeg'' then Some ''image/jpeg'' else None)"
    and "map_of (headers r) ''Cache-Control'' = Some ''public, max-age=31536000''"
    and "map_of (headers r) ''Content-Length'' = Some (Itoa (int (length buf)))"
  unfolding assms image_response by auto

lemma Itoa_2: "Itoa 2 = ''2''"
  by code_simp

lemma second_hex:
  "ObjectIDFromHex ''0c0b0a090807060504030201'' = Inr [12, 11, 10, 9, 8, 7, 6, 5, 4, 3, 2, 1]"
  by (simp add: ObjectIDFromHex_def fromHexChar_def)

lemma get_second:
  "get_by_id quiet (get_of ''id'' ''0c0b0a090807060504030201'') two_records =
     (Respond \<lparr>status = 200,
        headers = [(''Content-Type'', ''image/png''),
                   (''Cache-Control'', ''public, max-age=31536000''),
                   (''Content-Length'', ''2'')],
        body = RawBody [9, 8]\<rparr>, two_records)"
  by (simp add: get_by_id_def get_of_def Params_def second_hex quiet_def mongoClient_def
      FindOne_def two_records_def send_image_def NewBucket_def DownloadToStream_def chunks_of_def
      reassemble_def metadata_ext_def image_response Itoa_2)

text \<open>
  C6. Every 200 response of a download handler was built from the record its own lookup
  returned (\<open>FindOne\<close> by \<open>_id\<close> for download by id, by \<open>filename\<close> for download by name) and
  from the string \<open>ext\<close> stored in that record's \<open>metadata\<close> sub-document: its body is the raw
  buffer the chunk read filled, its \<open>Content-Type\<close> is \<open>image/png\<close> for \<open>.png\<close>, \<open>image/jpeg\<close> for
  \<open>.jpg\<close> and \<open>.jpeg\<close> and unset for any other stored extension, its \<open>Cache-Control\<close> is
  \<open>public, max-age=31536000\<close>, and its \<open>Content-Length\<close> is the decimal numeral of the body's
  length, which reads back as that length.
\<close>

theorem download_response_headers:
  "(get_by_id e req st = (Respond r, st') \<longrightarrow> status r = StatusOK \<longrightarrow>
      (\<exists>oid avatarMetadata m ext buffer.
         ObjectIDFromHex (Params req ''id'') = Inr oid \<and>
         FindOne e (files st) ''_id'' (BObjectID oid) = Inr avatarMetadata \<and>
         map_of avatarMetadata ''metadata'' = Some (BDocument m) \<and>
         map_of m ''ext'' = Some (BString ext) \<and>
         buffer = fst (DownloadToStream e (Bucket ''images'') st oid) \<and>
         body r = RawBody buffer \<and>
         map_of (headers r) ''Content-Type'' =
           (if ext = ''.png'' then Some ''image/png''
            else if ext = ''.jpg'' \<or> ext = ''.jpeg'' then Some ''image/jpeg'' else None) \<and>
         map_of (headers r) ''Cache-Control'' = Some ''public, max-age=31536000'' \<and>
         map_of (headers r) ''Content-Length'' = Some (Itoa (int (length buffer))) \<and>
         ParseUint (Itoa (int (length buffer))) = Some (length buffer)))
   \<and> (get_by_name e req st = (Respond r, st') \<longrightarrow> status r = StatusOK \<longrightarrow>
      (\<exists>avatarMetadata m ext buffer.
         FindOne e (files st) ''filename'' (BString (Params req ''name'')) = Inr avatarMetadata \<and>
         map_of avatarMetadata ''metadata'' = Some (BDocument m) \<and>
         map_of m ''ext'' = Some (BString ext) \<and>
         buffer = fst (DownloadToStreamByName e (Bucket ''images'') st (Params req ''name'')) \<and>
         body r = RawBody buffer \<and>
         map_of (headers r) ''Content-Type'' =
           (if ext = ''.png'' then Some ''image/png''
            else if ext = ''.jpg'' \<or> ext = ''.jpeg'' then Some ''image/jpeg'' else None) \<and>
         map_of (headers r) ''Cache-Control'' = Some ''public, max-age=31536000'' \<and>
         map_of (headers r) ''Content-Length'' = Some (Itoa (int (length buffer))) \<and>
         ParseUint (Itoa (int (length buffer))) = Some (length buffer)))"
proof (intro conjI impI)
  assume a: "get_by_id e req st = (Respond r, st')" "status r = StatusOK"
  from get_by_id_OK_found[OF a] obtain oid doc ext where
    f: "ObjectIDFromHex (Params req ''id'') = Inr oid"
       "FindOne e (files st) ''_id'' (BObjectID oid) = Inr doc"
    and x: "metadata_ext doc = Some ext"
    and r: "r = Send (fst (DownloadToStream e (Bucket ''images'') st oid))
                  (setResponseHeaders ctx0 (fst (DownloadToStream e (Bucket ''images'') st oid)) ext)"
    by blast
  from x obtain m where m: "map_of doc ''metadata'' = Some (BDocument m)"
    "map_of m ''ext'' = Some (BString ext)"
    by (auto simp: metadata_ext_Some)
  from f m image_response_headers(2-5)[OF r] ParseUint_Itoa
  show "\<exists>oid avatarMetadata m ext buffer.
         ObjectIDFromHex (Params req ''id'') = Inr oid \<and>
         FindOne e (files st) ''_id'' (BObjectID oid) = Inr avatarMetadata \<and>
         map_of avatarMetadata ''metadata'' = Some (BDocument m) \<and>
         map_of m ''ext'' = Some (BString ext) \<and>
         buffer = fst (DownloadToStream e (Bucket ''images'') st oid) \<and>
         body r = RawBody buffer \<and>
         map_of (headers r) ''Content-Type'' =
           (if ext = ''.png'' then Some ''image/png''
            else if ext = ''.jpg'' \<or> ext = ''.jpeg'' then Some ''image/jpeg'' else None) \<and>
         map_of (headers r) ''Cache-Control'' = Some ''public, max-age=31536000'' \<and>
         map_of (headers r) ''Content-Length'' = Some (Itoa (int (length buffer))) \<and>
         ParseUint (Itoa (int (length buffer))) = Some (length buffer)"
    by blast
next
  assume a: "get_by_name e req st = (Respond r, st')" "status r = StatusOK"
  from get_by_name_OK_found[OF a] obtain doc ext where
    f: "FindOne e (files st) ''filename'' (BString (Params req ''name'')) = Inr doc"
    and x: "metadata_ext doc = Some ext"
    and r: "r = Send (fst (DownloadToStreamByName e (Bucket ''images'') st (Params req ''name'')))
                  (setResponseHeaders ctx0
                     (fst (DownloadToStreamByName e (Bucket ''images'') st (Params req ''name''))) ext)"
    by blast
  from x obtain m where m: "map_of doc ''metadata'' = Some (BDocument m)"
    "map_of m ''ext'' = Some (BString ext)"
    by (auto simp: metadata_ext_Some)
  from f m image_response_headers(2-5)[OF r] ParseUint_Itoa
  show "\<exists>avatarMetadata m ext buffer.
         FindOne e (files st) ''filename'' (BString (Params req ''name'')) = Inr avatarMetadata \<and>
         map_of avatarMetadata ''metadata'' = Some (BDocument m) \<and>
         map_of m ''ext'' = Some (BString ext) \<and>
         buffer = fst (DownloadToStreamByName e (Bucket ''images'') st (Params req ''name'')) \<and>
         body r = RawBody buffer \<and>
         map_of (headers r) ''Content-Type'' =
           (if ext = ''.png'' then Some ''image/png''
            else if ext = ''.jpg'' \<or> ext = ''.jpeg'' then Some ''image/jpeg'' else None) \<and>
         map_of (headers r) ''Cache-Control'' = Some ''public, max-age=31536000'' \<and>
         map_of (headers r) ''Content-Length'' = Some (Itoa (int (length buffer))) \<and>
         ParseUint (Itoa (int (length buffer))) = Some (length buffer)"
    by blast
qed

theorem download_response_headers_witness:
  "\<exists>avatarMetadata m ext buffer.
      FindOne quiet (files two_records) ''_id'' (BObjectID [12, 11, 10, 9, 8, 7, 6, 5, 4, 3, 2, 1])
        = Inr avatarMetadata \<and>
      map_of avatarMetadata ''filename'' = Some (BString ''b.png'') \<and>
      map_of avatarMetadata ''metadata'' = Some (BDocument m) \<and>
      map_of m ''ext'' = Some (BString ext) \<and> ext = ''.png'' \<and>
      RawBody [9, 8] = RawBody buffer \<and>
      map_of [(''Content-Type'', ''image/png''),
              (''Cache-Control'', ''public, max-age=31536000''),
              (''Content-Length'', ''2'')] ''Content-Type'' = Some ''image/png'' \<and>
      map_of [(''Content-Type'', ''image/png''),
              (''Cache-Control'', ''public, max-age=31536000''),
              (''Content-Length'', ''2'')] ''Content-Length'' = Some (Itoa (int (length buffer))) \<and>
      ParseUint (Itoa (int (length buffer))) = Some (length buffer)"
proof -
  let ?r = "\<lparr>status = 200,
        headers = [(''Content-Type'', ''image/png''),
                   (''Cache-Control'', ''public, max-age=31536000''),
                   (''Content-Length'', ''2'')],
        body = RawBody [9, 8]\<rparr>"
  have s: "status ?r = StatusOK" by simp
  have p: "Params (get_of ''id'' ''0c0b0a090807060504030201'') ''id'' = ''0c0b0a090807060504030201''"
    by (simp add: Params_def get_of_def)
  from download_response_headers [of quiet "get_of ''id'' ''0c0b0a090807060504030201''" two_records ?r two_records]
    get_second s
  obtain oid avatarMetadata m ext buffer where
    a: "ObjectIDFromHex (Params (get_of ''id'' ''0c0b0a090807060504030201'') ''id'') = Inr oid"
       "FindOne quiet (files two_records) ''_id'' (BObjectID oid) = Inr avatarMetadata"
       "map_of avatarMetadata ''metadata'' = Some (BDocument m)"
       "map_of m ''ext'' = Some (BString ext)"
       "body ?r = RawBody buffer"
       "map_of (headers ?r) ''Content-Type'' =
           (if ext = ''.png'' then Some ''image/png''
            else if ext = ''.jpg'' \<or> ext = ''.jpeg'' then Some ''image/jpeg'' else None)"
       "map_of (headers ?r) ''Content-Length'' = Some (Itoa (int (length buffer)))"
       "ParseUint (Itoa (int (length buffer))) = Some (length buffer)"
    by blast
  from a(1) have oid: "oid = [12, 11, 10, 9, 8, 7, 6, 5, 4, 3, 2, 1]"
    by (simp add: p second_hex)
  from a(2) have doc: "avatarMetadata = [(''_id'', BObjectID [12, 11, 10, 9, 8, 7, 6, 5, 4, 3, 2, 1]),
                 (''filename'', BString ''b.png''),
                 (''metadata'', BDocument [(''ext'', BString ''.png'')])]"
    by (simp add: oid FindOne_def quiet_def two_records_def)
  from a(3,4) have ext: "ext = ''.png''" by (auto simp: doc)
  from a oid doc ext show ?thesis by auto
qed

section \<open>Rejected uploads\<close>

text \<open>
  C4. An upload whose filename does not end in an allowed extension is answered with status 400
  and "Invalid file type" before the store is touched: the store after the request is the store
  before it, records and chunks alike, so a lookup by id or by name that found nothing before
  the request is answered 404 after it.
\<close>

theorem rejected_upload_creates_nothing:
  assumes "FormFile req field = Inr fh" and "\<not> ends_in_allowed (Filename fh)"
  shows "upload field e req st = (Respond (error_response StatusBadRequest ''Invalid file type''), st)
    \<and> files (snd (upload field e req st)) = files st
    \<and> chunks (snd (upload field e req st)) = chunks st
    \<and> (ObjectIDFromHex (Params req' ''id'') = Inr oid \<longrightarrow> mongoClient e' = Inr () \<longrightarrow>
         FindOne e' (files st) ''_id'' (BObjectID oid) = Inl m \<longrightarrow>
         fst (get_by_id e' req' (snd (upload field e req st))) =
           Respond (error_response StatusNotFound ''Avatar not found''))
    \<and> (mongoClient e' = Inr () \<longrightarrow>
         FindOne e' (files st) ''filename'' (BString (Params req' ''name'')) = Inl m \<longrightarrow>
         fst (get_by_name e' req' (snd (upload field e req st))) =
           Respond (error_response StatusNotFound ''Avatar not found''))"
proof -
  have u: "upload field e req st = (Respond (error_response StatusBadRequest ''Invalid file type''), st)"
    using assms upload_invalid_type by (simp add: allowed_iff_ends)
  show ?thesis
    unfolding u using get_by_id_not_found[of req' oid e' st m] get_by_name_not_found[of e' st req' m]
    by simp
qed

theorem rejected_upload_creates_nothing_witness:
  "upload ''image'' quiet (post_of ''image'' ''doc.pdf'' [1, 2, 3]) empty_store
      = (Respond (error_response 400 ''Invalid file type''), empty_store)
   \<and> fst (get_by_id quiet (get_of ''id'' ''0102030405060708090a0b0c'')
        (snd (upload ''image'' quiet (post_of ''image'' ''doc.pdf'' [1, 2, 3]) empty_store)))
      = Respond (error_response 404 ''Avatar not found'')
   \<and> fst (get_by_name quiet (get_of ''name'' ''doc.pdf'')
        (snd (upload ''image'' quiet (post_of ''image'' ''doc.pdf'' [1, 2, 3]) empty_store)))
      = Respond (error_response 404 ''Avatar not found'')"
proof -
  have pdf: "\<not> ends_in_allowed (Filename \<lparr>Filename = ''doc.pdf'', Open = Inr (File (Inr [1, 2, 3]))\<rparr>)"
    by (simp add: ends_in_allowed_def HasSuffix_def)
  note r = rejected_upload_creates_nothing [OF sample_form pdf, of "''image''" quiet empty_store]
  have u: "upload ''image'' quiet (post_of ''image'' ''doc.pdf'' [1, 2, 3]) empty_store
      = (Respond (error_response 400 ''Invalid file type''), empty_store)"
    using r by (rule conjunct1)
  show ?thesis
    using r [of "get_of ''id'' ''0102030405060708090a0b0c''"
              "[1, 2, 3, 4, 5, 6, 7, 8, 9, 10, 11, 12]" quiet "''mongo: no documents in result''"]
      r [of "get_of ''name'' ''doc.pdf''" "[]" quiet "''mongo: no documents in result''"]
    unfolding u by (simp add: sample_lookups sample_hex)
qed

section \<open>Failure responses\<close>

lemma upload_Respond:
  assumes "upload field e req st = (Respond r, st')" and "status r \<noteq> StatusCreated"
  shows "\<exists>m. r = error_response StatusBadRequest m \<or> r = error_response StatusInternalServerError m"
  using assms
  by (auto simp: upload_def Let_def error_response_eq split: sum.splits if_splits prod.splits)

lemma get_by_id_failure:
  assumes "get_by_id e req st = (Respond r, st')" and "status r \<noteq> StatusOK"
  shows "\<exists>m. r = error_response StatusBadRequest m \<or> r = error_response StatusNotFound m"
  using assms
  by (auto simp: get_by_id_def error_response_eq image_response
      split: sum.splits dest!: send_image_Respond)

lemma get_by_name_failure:
  assumes "get_by_name e req st = (Respond r, st')" and "status r \<noteq> StatusOK"
  shows "r = error_response StatusNotFound ''Avatar not found''"
  using assms
  by (auto simp: get_by_name_def Let_def error_response_eq image_response
      split: sum.splits dest!: send_image_Respond)

text \<open>
  C7 as stated fails on its second half: a failed read does not return an empty or plain body.
  Download by an identifier that was never issued answers 404 with the structured JSON body.
\<close>

theorem download_not_found_body_is_json:
  "get_by_id quiet (get_of ''id'' ''0102030405060708090a0b0c'') empty_store =
     (Respond \<lparr>status = 404, headers = [(''Content-Type'', ''application/json'')],
        body = JSONBody (JObject [(''error'', JBool True), (''msg'', JString ''Avatar not found'')])\<rparr>,
      empty_store)"
  using get_by_id_not_found [of "get_of ''id'' ''0102030405060708090a0b0c''"
      "[1, 2, 3, 4, 5, 6, 7, 8, 9, 10, 11, 12]" quiet empty_store "''mongo: no documents in result''"]
  by (simp add: get_of_def Params_def sample_hex mongoClient_def FindOne_def quiet_def
      empty_store_def error_response_def)

lemma upload_checked_failures:
  assumes "FormFile req field = Inr fh" and "allowed_ext (FindString_ext (Filename fh))"
  shows "(Open fh = Inl err \<longrightarrow>
            upload field e req st = (Respond (error_response StatusBadRequest err), st))
    \<and> (Open fh = Inr opened \<longrightarrow>
         (ReadAll opened = Inl err \<longrightarrow>
            upload field e req st = (Respond (error_response StatusBadRequest err), st))
       \<and> (ReadAll opened = Inr content \<longrightarrow> mongoClient e = Inr () \<longrightarrow>
            (bucket_err e = Some err \<longrightarrow>
               upload field e req st =
                 (Respond (error_response StatusInternalServerError err), st))
          \<and> (bucket_err e = None \<longrightarrow>
               (open_err e = Some err \<longrightarrow>
                  upload field e req st =
                    (Respond (error_response StatusInternalServerError err), st))
             \<and> (open_err e = None \<longrightarrow> write_err e = Some err \<longrightarrow>
                  fst (upload field e req st) =
                    Respond (error_response StatusInternalServerError err)
                  \<and> chunks (snd (upload field e req st)) = chunks st))))"
  using assms
  by (auto simp: upload_def allowed_ext_def Let_def error_response_eq NewBucket_def
      OpenUploadStream_def Write_def Close_def split: option.splits)


text \<open>
  C7, as the code has it, for the failures the handlers check. In the upload handler: a failed
  \<open>FormFile\<close>, a filename that does not pass the extension check, a failed \<open>Open\<close> and a failed
  \<open>ReadAll\<close> are each answered at once with status 400, and a failed \<open>NewBucket\<close>, a failed
  \<open>OpenUploadStream\<close> and a failed \<open>Write\<close> with status 500, every time with the JSON body
  \<open>{error: true, msg: m}\<close>, where \<open>m\<close> is the error's message ("Invalid file type" for the
  extension); up to \<open>OpenUploadStream\<close> the store is left as it was, and a failed \<open>Write\<close>
  leaves no chunk. In the download handlers: an identifier that does not parse is answered with
  status 400 and a lookup that fails with status 404 "Avatar not found", with the same
  structured JSON body, not an empty or plain one. Conversely every response of the upload
  handler other than the 201, and every response of a download handler other than the 200, is
  such a JSON error response.
\<close>

theorem failure_responses_are_json:
  "(FormFile req field = Inl err \<longrightarrow>
      upload field e req st = (Respond (error_response StatusBadRequest err), st))
   \<and> (FormFile req field = Inr fh \<longrightarrow>
       (\<not> allowed_ext (FindString_ext (Filename fh)) \<longrightarrow>
          upload field e req st =
            (Respond (error_response StatusBadRequest ''Invalid file type''), st))
     \<and> (allowed_ext (FindString_ext (Filename fh)) \<longrightarrow>
         (Open fh = Inl err \<longrightarrow>
            upload field e req st = (Respond (error_response StatusBadRequest err), st))
       \<and> (Open fh = Inr opened \<longrightarrow>
           (ReadAll opened = Inl err \<longrightarrow>
              upload field e req st = (Respond (error_response StatusBadRequest err), st))
         \<and> (ReadAll opened = Inr content \<longrightarrow> mongoClient e = Inr () \<longrightarrow>
             (bucket_err e = Some err \<longrightarrow>
                upload field e req st =
                  (Respond (error_response StatusInternalServerError err), st))
           \<and> (bucket_err e = None \<longrightarrow>
               (open_err e = Some err \<longrightarrow>
                  upload field e req st =
                    (Respond (error_response StatusInternalServerError err), st))
             \<and> (open_err e = None \<longrightarrow> write_err e = Some err \<longrightarrow>
                  fst (upload field e req st) =
                    Respond (error_response StatusInternalServerError err)
                  \<and> chunks (snd (upload field e req st)) = chunks st))))))
   \<and> (ObjectIDFromHex (Params req ''id'') = Inl err \<longrightarrow>
        get_by_id e req st = (Respond (error_response StatusBadRequest err), st))
   \<and> (ObjectIDFromHex (Params req ''id'') = Inr oid \<longrightarrow> mongoClient e = Inr () \<longrightarrow>
        FindOne e (files st) ''_id'' (BObjectID oid) = Inl err \<longrightarrow>
        get_by_id e req st = (Respond (error_response StatusNotFound ''Avatar not found''), st))
   \<and> (mongoClient e = Inr () \<longrightarrow>
        FindOne e (files st) ''filename'' (BString (Params req ''name'')) = Inl err \<longrightarrow>
        get_by_name e req st = (Respond (error_response StatusNotFound ''Avatar not found''), st))
   \<and> (upload field e req st = (Respond r, st') \<longrightarrow> status r \<noteq> StatusCreated \<longrightarrow>
        (\<exists>m. r = error_response StatusBadRequest m
           \<or> r = error_response StatusInternalServerError m))
   \<and> (get_by_id e req st = (Respond r, st') \<longrightarrow> status r \<noteq> StatusOK \<longrightarrow>
        (\<exists>m. r = error_response StatusBadRequest m \<or> r = error_response StatusNotFound m))
   \<and> (get_by_name e req st = (Respond r, st') \<longrightarrow> status r \<noteq> StatusOK \<longrightarrow>
        r = error_response StatusNotFound ''Avatar not found'')"
proof -
  have 1: "FormFile req field = Inl err \<longrightarrow>
      upload field e req st = (Respond (error_response StatusBadRequest err), st)"
    by (simp add: upload_def error_response_eq)
  have 2: "FormFile req field = Inr fh \<longrightarrow> \<not> allowed_ext (FindString_ext (Filename fh)) \<longrightarrow>
          upload field e req st =
            (Respond (error_response StatusBadRequest ''Invalid file type''), st)"
    using upload_invalid_type by blast
  note 3 = upload_checked_failures[of req field fh err e st opened content]
  have 4: "ObjectIDFromHex (Params req ''id'') = Inl err \<longrightarrow>
        get_by_id e req st = (Respond (error_response StatusBadRequest err), st)"
    by (simp add: get_by_id_def error_response_eq)
  have 5: "ObjectIDFromHex (Params req ''id'') = Inr oid \<longrightarrow> mongoClient e = Inr () \<longrightarrow>
        FindOne e (files st) ''_id'' (BObjectID oid) = Inl err \<longrightarrow>
        get_by_id e req st = (Respond (error_response StatusNotFound ''Avatar not found''), st)"
    using get_by_id_not_found by blast
  have 6: "mongoClient e = Inr () \<longrightarrow>
        FindOne e (files st) ''filename'' (BString (Params req ''name'')) = Inl err \<longrightarrow>
        get_by_name e req st = (Respond (error_response StatusNotFound ''Avatar not found''), st)"
    using get_by_name_not_found by blast
  have 7: "upload field e req st = (Respond r, st') \<longrightarrow> status r \<noteq> StatusCreated \<longrightarrow>
        (\<exists>m. r = error_response StatusBadRequest m
           \<or> r = error_response StatusInternalServerError m)"
    using upload_Respond by blast
  have 8: "get_by_id e req st = (Respond r, st') \<longrightarrow> status r \<noteq> StatusOK \<longrightarrow>
        (\<exists>m. r = error_response StatusBadRequest m \<or> r = error_response StatusNotFound m)"
    using get_by_id_failure by blast
  have 9: "get_by_name e req st = (Respond r, st') \<longrightarrow> status r \<noteq> StatusOK \<longrightarrow>
        r = error_response StatusNotFound ''Avatar not found''"
    using get_by_name_failure by blast
  from 1 2 3 4 5 6 7 8 9 show ?thesis by blast
qed

theorem failure_responses_are_json_witness:
  "upload ''image'' quiet (post_of ''file'' ''a.png'' [7]) empty_store =
      (Respond (error_response 400 ''there is no uploaded file associated with the given key''),
       empty_store)
   \<and> fst (upload ''image'' write_fails (post_of ''image'' ''a.png'' [7]) empty_store) =
      Respond (error_response 500 ''write failed'')
   \<and> get_by_id quiet (get_of ''id'' ''not-a-valid-hex'') empty_store =
      (Respond (error_response 400 ''the provided hex string is not a valid ObjectID''),
       empty_store)
   \<and> get_by_id quiet (get_of ''id'' ''0102030405060708090a0b0c'') empty_store =
      (Respond (error_response 404 ''Avatar not found''), empty_store)
   \<and> get_by_name quiet (get_of ''name'' ''a.png'') empty_store =
      (Respond (error_response 404 ''Avatar not found''), empty_store)"
proof -
  have missing: "FormFile (post_of ''file'' ''a.png'' [7]) ''image'' =
      Inl ''there is no uploaded file associated with the given key''"
    by (simp add: FormFile_def post_of_def)
  from failure_responses_are_json [where req = "post_of ''file'' ''a.png'' [7]" and field = "''image''"
      and err = "''there is no uploaded file associated with the given key''"
      and e = quiet and st = empty_store] missing
  have 1: "upload ''image'' quiet (post_of ''file'' ''a.png'' [7]) empty_store =
      (Respond (error_response 400 ''there is no uploaded file associated with the given key''),
       empty_store)"
    by blast
  have w: "allowed_ext (FindString_ext (Filename \<lparr>Filename = ''a.png'', Open = Inr (File (Inr [7]))\<rparr>))"
    "Open \<lparr>Filename = ''a.png'', Open = Inr (File (Inr [7]))\<rparr> = Inr (File (Inr [7]))"
    "ReadAll (File (Inr [7])) = Inr [7]"
    "mongoClient write_fails = Inr ()" "bucket_err write_fails = None"
    "open_err write_fails = None" "write_err write_fails = Some ''write failed''"
    by (simp_all add: allowed_ext_def alnum_def write_fails_def quiet_def mongoClient_def)
  from failure_responses_are_json [where req = "post_of ''image'' ''a.png'' [7]" and field = "''image''"
      and fh = "\<lparr>Filename = ''a.png'', Open = Inr (File (Inr [7]))\<rparr>"
      and opened = "File (Inr [7])" and content = "[7]"
      and err = "''write failed''" and e = write_fails and st = empty_store] sample_form w
  have 2: "fst (upload ''image'' write_fails (post_of ''image'' ''a.png'' [7]) empty_store) =
      Respond (error_response 500 ''write failed'')"
    by blast
  have bad: "ObjectIDFromHex (Params (get_of ''id'' ''not-a-valid-hex'') ''id'') =
      Inl ''the provided hex string is not a valid ObjectID''"
    by (simp add: sample_lookups ObjectIDFromHex_def)
  from failure_responses_are_json [where req = "get_of ''id'' ''not-a-valid-hex''"
      and err = "''the provided hex string is not a valid ObjectID''"
      and e = quiet and st = empty_store] bad
  have 3: "get_by_id quiet (get_of ''id'' ''not-a-valid-hex'') empty_store =
      (Respond (error_response 400 ''the provided hex string is not a valid ObjectID''),
       empty_store)"
    by blast
  have good: "ObjectIDFromHex (Params (get_of ''id'' ''0102030405060708090a0b0c'') ''id'') =
      Inr [1, 2, 3, 4, 5, 6, 7, 8, 9, 10, 11, 12]"
    by (simp add: sample_lookups sample_hex)
  from failure_responses_are_json [where req = "get_of ''id'' ''0102030405060708090a0b0c''"
      and oid = "[1, 2, 3, 4, 5, 6, 7, 8, 9, 10, 11, 12]"
      and err = "''mongo: no documents in result''"
      and e = quiet and st = empty_store] good sample_lookups(1)
    sample_lookups(3) [of "''_id''" "BObjectID [1, 2, 3, 4, 5, 6, 7, 8, 9, 10, 11, 12]"]
  have 4: "get_by_id quiet (get_of ''id'' ''0102030405060708090a0b0c'') empty_store =
      (Respond (error_response 404 ''Avatar not found''), empty_store)"
    by blast
  from failure_responses_are_json [where req = "get_of ''name'' ''a.png''"
      and err = "''mongo: no documents in result''"
      and e = quiet and st = empty_store] sample_lookups(1)
    sample_lookups(3) [of "''filename''" "BString (Params (get_of ''name'' ''a.png'') ''name'')"]
  have 5: "get_by_name quiet (get_of ''name'' ''a.png'') empty_store =
      (Respond (error_response 404 ''Avatar not found''), empty_store)"
    by blast
  from 1 2 3 4 5 show ?thesis by blast
qed

section \<open>Chunking and reassembly\<close>

lemma split_chunks_Nil [simp]: "split_chunks cs oid k [] = []"
  by (simp add: split_chunks.simps)

lemma split_chunks_step:
  "0 < cs \<Longrightarrow> bs \<noteq> [] \<Longrightarrow>
   split_chunks cs oid k bs =
     \<lparr>objectId = oid, sequenceNumber = k, data = take cs bs\<rparr>
       # split_chunks cs oid (Suc k) (drop cs bs)"
  by (subst split_chunks.simps) simp

lemma concat_split_chunks: "0 < cs \<Longrightarrow> concat (map data (split_chunks cs oid k bs)) = bs"
proof (induction cs oid k bs rule: split_chunks.induct)
  case (1 cs oid k bs)
  show ?case
  proof (cases "bs = []")
    case True
    then show ?thesis by simp
  next
    case False
    with 1 show ?thesis by (simp add: split_chunks_step)
  qed
qed

lemma seq_split_chunks:
  "0 < cs \<Longrightarrow> map sequenceNumber (split_chunks cs oid k bs)
     = [k ..< k + length (split_chunks cs oid k bs)]"
proof (induction cs oid k bs rule: split_chunks.induct)
  case (1 cs oid k bs)
  show ?case
  proof (cases "bs = []")
    case True
    then show ?thesis by simp
  next
    case False
    with 1 show ?thesis by (simp add: split_chunks_step upt_rec)
  qed
qed

lemma objectId_split_chunks: "c \<in> set (split_chunks cs oid k bs) \<Longrightarrow> objectId c = oid"
proof (induction cs oid k bs rule: split_chunks.induct)
  case (1 cs oid k bs)
  then show ?case
    by (cases "bs = [] \<or> cs = 0") (auto simp: split_chunks.simps[of cs oid k bs])
qed

lemma size_split_chunks:
  "0 < cs \<Longrightarrow> c \<in> set (split_chunks cs oid k bs) \<Longrightarrow>
     0 < length (data c) \<and> length (data c) \<le> cs"
proof (induction cs oid k bs rule: split_chunks.induct)
  case (1 cs oid k bs)
  show ?case
  proof (cases "bs = []")
    case True
    with 1 show ?thesis by simp
  next
    case False
    with 1 show ?thesis by (auto simp: split_chunks_step)
  qed
qed

lemma full_split_chunks:
  "0 < cs \<Longrightarrow> Suc i < length (split_chunks cs oid k bs) \<Longrightarrow>
     length (data (split_chunks cs oid k bs ! i)) = cs"
proof (induction cs oid k bs arbitrary: i rule: split_chunks.induct)
  case (1 cs oid k bs)
  from "1.prems" have ne: "bs \<noteq> []" by auto
  note eq = split_chunks_step[OF "1.prems"(1) ne, of oid k]
  show ?case
  proof (cases i)
    case 0
    from "1.prems" have "split_chunks cs oid (Suc k) (drop cs bs) \<noteq> []"
      by (auto simp: eq)
    then have "drop cs bs \<noteq> []" by auto
    then show ?thesis using 0 by (simp add: eq)
  next
    case (Suc j)
    with "1.prems" have "Suc j < length (split_chunks cs oid (Suc k) (drop cs bs))"
      by (simp add: eq)
    with "1.IH"[of j] "1.prems"(1) ne show ?thesis by (simp add: eq Suc)
  qed
qed

lemma ceil_div_step:
  assumes "0 < cs" and "0 < (n::nat)"
  shows "(n + (cs - 1)) div cs = Suc ((n - cs + (cs - 1)) div cs)"
proof (cases "cs \<le> n")
  case True
  then have "n + (cs - 1) = (n - cs + (cs - 1)) + cs" by simp
  then have "(n + (cs - 1)) div cs = ((n - cs + (cs - 1)) + cs) div cs" by simp
  also have "\<dots> = (n - cs + (cs - 1)) div cs + 1"
    by (rule div_add_self2) (use assms(1) in simp)
  finally show ?thesis by (simp only: Suc_eq_plus1)
next
  case False
  then have a: "n + (cs - 1) = (n - 1) + cs" and b: "n - 1 < cs" and c: "n - cs = 0"
    using assms by simp_all
  have "(n + (cs - 1)) div cs = ((n - 1) + cs) div cs" using a by simp
  also have "\<dots> = (n - 1) div cs + 1"
    by (rule div_add_self2) (use assms(1) in simp)
  also have "\<dots> = Suc 0" using b by simp
  finally have "(n + (cs - 1)) div cs = Suc 0" .
  moreover have "(n - cs + (cs - 1)) div cs = 0" using c assms(1) by simp
  ultimately show ?thesis by (simp only:)
qed

lemma length_split_chunks:
  "0 < cs \<Longrightarrow> length (split_chunks cs oid k bs) = (length bs + (cs - 1)) div cs"
proof (induction cs oid k bs rule: split_chunks.induct)
  case (1 cs oid k bs)
  show ?case
  proof (cases "bs = []")
    case True
    with 1 show ?thesis by simp
  next
    case False
    then have "0 < length bs" by simp
    from ceil_div_step[OF "1.prems" this] 1 False show ?thesis
      by (simp add: split_chunks_step)
  qed
qed

lemma sort_key_perm_distinct:
  assumes m: "mset xs = mset ys" and s: "sorted (map f ys)" and d: "distinct (map f ys)"
  shows "sort_key f xs = ys"
proof (rule properties_for_sort_key)
  show "mset ys = mset xs" using m by simp
  show "sorted (map f ys)" by (rule s)
  fix k assume k: "k \<in> set ys"
  have one: "filter (\<lambda>x. f k = f x) ys = [k]"
    using d k
  proof (induction ys)
    case Nil
    then show ?case by simp
  next
    case (Cons y ys)
    show ?case
    proof (cases "k = y")
      case True
      have "filter (\<lambda>x. f y = f x) ys = []"
        using Cons.prems(1) by (auto simp: filter_empty_conv)
      with True show ?thesis by simp
    next
      case False
      with Cons.prems have ks: "k \<in> set ys" by simp
      then have "f k \<in> f ` set ys" by (rule imageI)
      with Cons.prems(1) have "f k \<noteq> f y" by auto
      with Cons ks show ?thesis by simp
    qed
  qed
  have "mset (filter (\<lambda>x. f k = f x) xs) = mset (filter (\<lambda>x. f k = f x) ys)"
    using m by simp
  then have "mset (filter (\<lambda>x. f k = f x) xs) = {#k#}" by (simp only: one mset_single_iff_right mset.simps)
  then have "filter (\<lambda>x. f k = f x) xs = [k]" by (simp only: mset_single_iff)
  with one show "filter (\<lambda>x. f k = f x) ys = filter (\<lambda>x. f k = f x) xs" by simp
qed

lemma sorted_distinct_split_chunks:
  assumes "0 < cs"
  shows "sorted (map sequenceNumber (split_chunks cs oid k bs))"
    and "distinct (map sequenceNumber (split_chunks cs oid k bs))"
  by (simp_all add: seq_split_chunks[OF assms])

lemma reassemble_perm:
  assumes "0 < cs"
    and "mset (filter (\<lambda>c. objectId c = oid) (chunks st)) = mset (split_chunks cs oid 0 bs)"
  shows "chunks_of st oid = split_chunks cs oid 0 bs" and "reassemble st oid = bs"
proof -
  show c: "chunks_of st oid = split_chunks cs oid 0 bs"
    unfolding chunks_of_def
    by (rule sort_key_perm_distinct[OF assms(2) sorted_distinct_split_chunks[OF assms(1)]])
  show "reassemble st oid = bs"
    by (simp add: reassemble_def c concat_split_chunks[OF assms(1)])
qed

lemma filter_fresh:
  assumes "\<forall>c\<in>set old. objectId c \<noteq> oid"
  shows "filter (\<lambda>c. objectId c = oid) (old @ split_chunks cs oid k bs) = split_chunks cs oid k bs"
proof -
  have "filter (\<lambda>c. objectId c = oid) old = []" using assms by (simp add: filter_empty_conv)
  moreover have "filter (\<lambda>c. objectId c = oid) (split_chunks cs oid k bs) = split_chunks cs oid k bs"
    by (simp add: filter_id_conv objectId_split_chunks)
  ultimately show ?thesis by simp
qed

lemma fst_DownloadToStream:
  "download_fault e = None \<Longrightarrow> fst (DownloadToStream e b st oid) = reassemble st oid"
  by (simp add: DownloadToStream_def reassemble_def)

text \<open>
  C2. Fixed-size chunking, for every input \<open>bs\<close> and every positive chunk size \<open>cs\<close>: the chunks
  carry the sequence numbers \<open>0, 1, ...\<close> in order and the object's identifier; every chunk but
  the last holds exactly \<open>cs\<close> bytes and no chunk is empty or longer than \<open>cs\<close>; there are
  \<open>\<lceil>length bs / cs\<rceil>\<close> of them; their data concatenated in order is \<open>bs\<close>; and reassembly, which
  sorts the object's chunks by sequence number and concatenates, returns \<open>bs\<close> from any store
  that holds exactly these chunks for the object, in whatever order and among whatever chunks of
  other objects. In particular a \<open>Write\<close> that does not fail returns the byte count and leaves
  a store from which the object reassembles to \<open>bs\<close>. Every size, 0, 1, \<open>cs - 1\<close>, \<open>cs\<close>,
  \<open>cs + 1\<close> and \<open>10 * cs\<close> among them, is covered.
\<close>

theorem chunking_reassembly:
  assumes "0 < cs" and "C = split_chunks cs oid 0 bs"
  shows "map sequenceNumber C = [0 ..< length C]
    \<and> (\<forall>c\<in>set C. objectId c = oid \<and> 0 < length (data c) \<and> length (data c) \<le> cs)
    \<and> (\<forall>i. Suc i < length C \<longrightarrow> length (data (C ! i)) = cs)
    \<and> length C = (length bs + (cs - 1)) div cs
    \<and> concat (map data C) = bs
    \<and> (mset (filter (\<lambda>c. objectId c = oid) (chunks st)) = mset C \<longrightarrow>
         chunks_of st oid = C \<and> reassemble st oid = bs)
    \<and> (write_err e = None \<longrightarrow> chunkSize st = cs \<longrightarrow> FileID us = oid \<longrightarrow>
         (\<forall>c\<in>set (chunks st). objectId c \<noteq> oid) \<longrightarrow>
         (\<exists>us' st'. Write e us bs st = (Inr (length bs), us', st') \<and> reassemble st' oid = bs))"
proof -
  have 1: "map sequenceNumber C = [0 ..< length C]"
    using seq_split_chunks[OF assms(1), of oid 0 bs] by (simp add: assms(2))
  have 2: "\<forall>c\<in>set C. objectId c = oid \<and> 0 < length (data c) \<and> length (data c) \<le> cs"
    using objectId_split_chunks size_split_chunks[OF assms(1)] unfolding assms(2) by blast
  have 3: "\<forall>i. Suc i < length C \<longrightarrow> length (data (C ! i)) = cs"
    using full_split_chunks[OF assms(1)] unfolding assms(2) by blast
  have 4: "length C = (length bs + (cs - 1)) div cs"
    unfolding assms(2) by (rule length_split_chunks[OF assms(1)])
  have 5: "concat (map data C) = bs"
    unfolding assms(2) by (rule concat_split_chunks[OF assms(1)])
  have 6: "mset (filter (\<lambda>c. objectId c = oid) (chunks st)) = mset C \<longrightarrow>
         chunks_of st oid = C \<and> reassemble st oid = bs"
    using reassemble_perm[OF assms(1), of oid st bs] unfolding assms(2) by blast
  have 7: "write_err e = None \<longrightarrow> chunkSize st = cs \<longrightarrow> FileID us = oid \<longrightarrow>
         (\<forall>c\<in>set (chunks st). objectId c \<noteq> oid) \<longrightarrow>
         (\<exists>us' st'. Write e us bs st = (Inr (length bs), us', st') \<and> reassemble st' oid = bs)"
  proof (intro impI)
    assume a: "write_err e = None" "chunkSize st = cs" "FileID us = oid"
      "\<forall>c\<in>set (chunks st). objectId c \<noteq> oid"
    let ?st' = "st\<lparr>chunks := chunks st @ split_chunks cs oid 0 bs\<rparr>"
    have "Write e us bs st = (Inr (length bs), us\<lparr>us_length := us_length us + length bs\<rparr>, ?st')"
      using a by (simp add: Write_def)
    moreover have "reassemble ?st' oid = bs"
    proof (rule reassemble_perm(2)[OF assms(1)])
      have "filter (\<lambda>c. objectId c = oid) (chunks ?st') = split_chunks cs oid 0 bs"
        using filter_fresh[OF a(4)] by simp
      then show "mset (filter (\<lambda>c. objectId c = oid) (chunks ?st')) = mset (split_chunks cs oid 0 bs)"
        by (simp only:)
    qed
    ultimately show "\<exists>us' st'. Write e us bs st = (Inr (length bs), us', st') \<and> reassemble st' oid = bs"
      by blast
  qed
  from 1 2 3 4 5 6 7 show ?thesis by blast
qed

theorem chunking_reassembly_witness:
  "split_chunks 4 [7] 0 [1, 2, 3, 4, 5] =
     [\<lparr>objectId = [7], sequenceNumber = 0, data = [1, 2, 3, 4]\<rparr>,
      \<lparr>objectId = [7], sequenceNumber = 1, data = [5]\<rparr>]
   \<and> reassemble shuffled [7] = [1, 2, 3, 4, 5]
   \<and> (\<exists>us' st'. Write quiet \<lparr>FileID = [7], us_filename = ''a.png'', us_metadata = BNull,
                               us_length = 0\<rparr> [1, 2, 3, 4, 5] empty_store
                  = (Inr (length [1, 2, 3, 4, 5 :: byte]), us', st')
                \<and> reassemble st' [7] = [1, 2, 3, 4, 5])"
proof -
  have C: "split_chunks 4 [7] 0 [1, 2, 3, 4, 5] =
     [\<lparr>objectId = [7], sequenceNumber = 0, data = [1, 2, 3, 4]\<rparr>,
      \<lparr>objectId = [7], sequenceNumber = 1, data = [5]\<rparr>]"
    by (simp add: split_chunks.simps)
  have perm: "mset (filter (\<lambda>c. objectId c = [7]) (chunks shuffled))
      = mset (split_chunks 4 [7] 0 [1, 2, 3, 4, 5])"
    by (simp add: C shuffled_def)
  have pos: "(0::nat) < 4" by simp
  note t = chunking_reassembly [OF pos refl, where oid = "[7]" and bs = "[1, 2, 3, 4, 5]" and e = quiet
      and us = "\<lparr>FileID = [7], us_filename = ''a.png'', us_metadata = BNull, us_length = 0\<rparr>"]
  from t [of shuffled] perm have r: "reassemble shuffled [7] = [1, 2, 3, 4, 5]"
    by blast
  have h: "write_err quiet = None" "chunkSize empty_store = 4"
    "FileID \<lparr>FileID = [7], us_filename = ''a.png'', us_metadata = BNull, us_length = 0\<rparr> = [7]"
    "\<forall>c\<in>set (chunks empty_store). objectId c \<noteq> [7]"
    by (simp_all add: quiet_def empty_store_def)
  from t [of empty_store] h
  have w: "\<exists>us' st'. Write quiet \<lparr>FileID = [7], us_filename = ''a.png'', us_metadata = BNull,
                               us_length = 0\<rparr> [1, 2, 3, 4, 5] empty_store
                  = (Inr (length [1, 2, 3, 4, 5 :: byte]), us', st')
                \<and> reassemble st' [7] = [1, 2, 3, 4, 5]"
    by blast
  from C r w show ?thesis by blast
qed

section \<open>Upload, then download\<close>

lemma fromHexChar_hextable: "k < 16 \<Longrightarrow> fromHexChar (hextable ! k) = Some k"
proof -
  assume "k < 16"
  then consider "k = 0" | "k = 1" | "k = 2" | "k = 3" | "k = 4" | "k = 5" | "k = 6" | "k = 7"
    | "k = 8" | "k = 9" | "k = 10" | "k = 11" | "k = 12" | "k = 13" | "k = 14" | "k = 15"
    by (auto simp: less_Suc_eq numeral_eq_Suc)
  then show ?thesis
    by cases (simp_all add: hextable_def fromHexChar_def)
qed

lemma hex_Decode_Hex: "hex_Decode (Hex oid) = Some oid"
proof (induction oid)
  case Nil
  then show ?case by (simp add: Hex_def)
next
  case (Cons b bs)
  have hi: "fromHexChar (hextable ! (unat b div 16)) = Some (unat b div 16)"
  proof (rule fromHexChar_hextable)
    have "unat b < 256" using unsigned_less[of b] by simp
    then show "unat b div 16 < 16" by simp
  qed
  have lo: "fromHexChar (hextable ! (unat b mod 16)) = Some (unat b mod 16)"
    by (rule fromHexChar_hextable) simp
  have "(of_nat (16 * (unat b div 16) + unat b mod 16) :: byte) = of_nat (unat b)" by simp
  then have same: "(of_nat (16 * (unat b div 16) + unat b mod 16) :: byte) = b" by simp
  have "Hex (b # bs) = hextable ! (unat b div 16) # hextable ! (unat b mod 16) # Hex bs"
    by (simp add: Hex_def hex_byte_def)
  then show ?case using Cons hi lo same by (simp del: of_nat_add of_nat_mult)
qed

lemma length_Hex: "length (Hex oid) = 2 * length oid"
  by (induction oid) (simp_all add: Hex_def hex_byte_def)

lemma ObjectIDFromHex_Hex: "length oid = 12 \<Longrightarrow> ObjectIDFromHex (Hex oid) = Inr oid"
  by (simp add: ObjectIDFromHex_def length_Hex hex_Decode_Hex)

lemma find_append_fresh:
  assumes "\<forall>d\<in>set xs. \<not> P d" and "P y"
  shows "find P (xs @ [y]) = Some y"
  using assms by (induction xs) auto

lemma content_type_of_suffix:
  assumes "ends_in_allowed name"
  shows "(if FindString_ext name = ''.png'' then [(''Content-Type'', ''image/png'')]
          else if FindString_ext name = ''.jpg'' \<or> FindString_ext name = ''.jpeg''
               then [(''Content-Type'', ''image/jpeg'')]
          else []) =
         [(''Content-Type'', if HasSuffix name ''.png'' then ''image/png'' else ''image/jpeg'')]"
proof -
  from assms have "allowed_ext (FindString_ext name)" by (simp add: allowed_iff_ends)
  then consider "FindString_ext name = ''.jpg''" | "FindString_ext name = ''.jpeg''"
    | "FindString_ext name = ''.png''"
    unfolding allowed_ext_def by blast
  then show ?thesis
  proof cases
    case 1
    have "\<not> HasSuffix name ''.png''"
      using 1 by (auto simp: HasSuffix_iff FindString_ext_allowed)
    with 1 show ?thesis by simp
  next
    case 2
    have "\<not> HasSuffix name ''.png''"
      using 2 by (auto simp: HasSuffix_iff FindString_ext_allowed)
    with 2 show ?thesis by simp
  next
    case 3
    from FindString_ext_is_suffix[OF 3] have "HasSuffix name ''.png''"
      by (simp add: HasSuffix_iff)
    with 3 show ?thesis by simp
  qed
qed

text \<open>
  C1. Round trip. Let a request carry, in the handler's form field, a readable file with payload
  \<open>P\<close> whose name ends in an allowed extension; let no driver call fail during the upload and
  during the later download; let the identifier drawn for the upload be a 12-byte value that no
  stored record or chunk carries yet, and the chunk size be positive. Then the upload answers
  201 with the hex form of that identifier, and downloading by that hex identifier from the
  resulting store answers 200 with body exactly \<open>P\<close>, \<open>Content-Type\<close> \<open>image/png\<close> when the name
  ends in \<open>.png\<close> and \<open>image/jpeg\<close> otherwise (\<open>.jpg\<close>, \<open>.jpeg\<close>), and the length of \<open>P\<close> as
  \<open>Content-Length\<close>.
\<close>

theorem upload_then_download_by_id:
  assumes part: "FormFile req field = Inr fh"
    and ext: "ends_in_allowed (Filename fh)"
    and content: "Open fh = Inr (File (Inr P))"
    and calm: "no_faults e" "no_faults e'"
    and width: "length (new_id e) = 12"
    and size: "0 < chunkSize st"
    and fresh: "\<forall>d\<in>set (files st). map_of d ''_id'' \<noteq> Some (BObjectID (new_id e))"
               "\<forall>c\<in>set (chunks st). objectId c \<noteq> new_id e"
    and up: "upload field e req st = (out, st')"
    and param: "Params req' ''id'' = Hex (new_id e)"
  shows "out = Respond (JSON (JObject [(''error'', JBool False),
                  (''msg'', JString ''Image uploaded successfully''),
                  (''image'', JObject [(''id'', JString (Hex (new_id e))),
                                       (''name'', JString (Filename fh)),
                                       (''size'', JNumber (int (length P)))])])
               (Status StatusCreated ctx0))
    \<and> get_by_id e' req' st' =
        (Respond \<lparr>status = StatusOK,
           headers = [(''Content-Type'',
                        if HasSuffix (Filename fh) ''.png'' then ''image/png'' else ''image/jpeg''),
                      (''Cache-Control'', ''public, max-age=31536000''),
                      (''Content-Length'', Itoa (int (length P)))],
           body = RawBody P\<rparr>, st')"
proof -
  let ?oid = "new_id e"
  let ?doc = "[(''_id'', BObjectID ?oid),
            (''length'', BInt64 (int (length P))),
            (''chunkSize'', BInt32 (int (chunkSize st))),
            (''uploadDate'', BDateTime (now e)),
            (''filename'', BString (Filename fh)),
            (''metadata'', BDocument [(''ext'', BString (FindString_ext (Filename fh)))])]"
  have allowed: "allowed_ext (FindString_ext (Filename fh))" using ext by (simp add: allowed_iff_ends)
  note u = upload_no_faults[OF part allowed content calm(1), of st]
  from u up have out: "out = Respond (JSON (JObject [(''error'', JBool False),
                  (''msg'', JString ''Image uploaded successfully''),
                  (''image'', JObject [(''id'', JString (Hex (new_id e))),
                                       (''name'', JString (Filename fh)),
                                       (''size'', JNumber (int (length P)))])])
               (Status StatusCreated ctx0))"
    and st': "st' = st\<lparr>chunks := chunks st @ split_chunks (chunkSize st) ?oid 0 P,
                       files := files st @ [?doc]\<rparr>"
    by simp_all
  have hex: "ObjectIDFromHex (Params req' ''id'') = Inr ?oid"
    using param width by (simp add: ObjectIDFromHex_Hex)
  have client: "mongoClient e' = Inr ()" using calm(2) by (simp add: no_faults_def mongoClient_def)
  have "find (\<lambda>d. map_of d ''_id'' = Some (BObjectID ?oid)) (files st @ [?doc]) = Some ?doc"
    by (rule find_append_fresh) (use fresh(1) in simp_all)
  then have found: "FindOne e' (files st') ''_id'' (BObjectID ?oid) = Inr ?doc"
    using calm(2) by (simp add: FindOne_def no_faults_def st')
  have "filter (\<lambda>c. objectId c = ?oid) (chunks st') = split_chunks (chunkSize st) ?oid 0 P"
    using filter_fresh[OF fresh(2)] by (simp add: st')
  then have "mset (filter (\<lambda>c. objectId c = ?oid) (chunks st')) = mset (split_chunks (chunkSize st) ?oid 0 P)"
    by (simp only:)
  from reassemble_perm(2)[OF size this] have "reassemble st' ?oid = P" .
  then have buf: "fst (DownloadToStream e' (Bucket ''images'') st' ?oid) = P"
    using calm(2) by (simp add: fst_DownloadToStream no_faults_def)
  have meta: "metadata_ext ?doc = Some (FindString_ext (Filename fh))"
    by (simp add: metadata_ext_def)
  have bucket: "NewBucket e' ''images'' = Inr (Bucket ''images'')"
    using calm(2) by (simp add: NewBucket_def no_faults_def)
  have "get_by_id e' req' st' =
     (Respond (Send P (setResponseHeaders ctx0 P (FindString_ext (Filename fh)))), st')"
    by (simp add: get_by_id_def hex client found send_image_def bucket buf meta Let_def)
  with out show ?thesis
    by (simp add: image_response content_type_of_suffix[OF ext])
qed

theorem upload_then_download_by_id_witness:
  "fst (upload ''image'' quiet (post_of ''image'' ''a.png'' [1, 2, 3, 4, 5]) empty_store) =
     Respond (JSON (JObject [(''error'', JBool False),
                  (''msg'', JString ''Image uploaded successfully''),
                  (''image'', JObject [(''id'', JString ''0102030405060708090a0b0c''),
                                       (''name'', JString ''a.png''),
                                       (''size'', JNumber 5)])])
               (Status StatusCreated ctx0))
   \<and> get_by_id quiet (get_of ''id'' ''0102030405060708090a0b0c'')
        (snd (upload ''image'' quiet (post_of ''image'' ''a.png'' [1, 2, 3, 4, 5]) empty_store)) =
      (Respond \<lparr>status = StatusOK,
         headers = [(''Content-Type'', ''image/png''),
                    (''Cache-Control'', ''public, max-age=31536000''),
                    (''Content-Length'', ''5'')],
         body = RawBody [1, 2, 3, 4, 5]\<rparr>,
       snd (upload ''image'' quiet (post_of ''image'' ''a.png'' [1, 2, 3, 4, 5]) empty_store))"
proof -
  have hexid: "Hex (new_id quiet) = ''0102030405060708090a0b0c''"
    by (simp add: quiet_def Hex_def hex_byte_def hextable_def)
  have png: "HasSuffix ''a.png'' ''.png''" by (simp add: HasSuffix_def)
  have 1: "ends_in_allowed (Filename \<lparr>Filename = ''a.png'', Open = Inr (File (Inr [1, 2, 3, 4, 5]))\<rparr>)"
    by (simp add: ends_in_allowed_def HasSuffix_def)
  have 2: "Open \<lparr>Filename = ''a.png'', Open = Inr (File (Inr [1, 2, 3, 4, 5]))\<rparr> = Inr (File (Inr [1, 2, 3, 4, 5]))"
    by simp
  have 3: "length (new_id quiet) = 12" by (simp add: quiet_def)
  have 4: "0 < chunkSize empty_store" by (simp add: empty_store_def)
  have 5: "\<forall>d\<in>set (files empty_store). map_of d ''_id'' \<noteq> Some (BObjectID (new_id quiet))"
    by (simp add: empty_store_def)
  have 6: "\<forall>c\<in>set (chunks empty_store). objectId c \<noteq> new_id quiet"
    by (simp add: empty_store_def)
  have 7: "upload ''image'' quiet (post_of ''image'' ''a.png'' [1, 2, 3, 4, 5]) empty_store =
    (fst (upload ''image'' quiet (post_of ''image'' ''a.png'' [1, 2, 3, 4, 5]) empty_store),
     snd (upload ''image'' quiet (post_of ''image'' ''a.png'' [1, 2, 3, 4, 5]) empty_store))"
    by simp
  have 8: "Params (get_of ''id'' ''0102030405060708090a0b0c'') ''id'' = Hex (new_id quiet)"
    by (simp add: hexid sample_lookups)
  from upload_then_download_by_id [OF sample_form 1 2 quiet_no_faults quiet_no_faults 3 4 5 6 7 8]
  show ?thesis by (simp add: hexid png Itoa_5)
qed

section \<open>When download by id answers 404\<close>

text \<open>
  C3 as stated fails: after an upload of an empty payload the identifier has a metadata record
  and no chunks, and download by id answers 200 with an empty body, not 404.
\<close>

theorem no_chunks_yet_ok:
  "chunks empty_upload = []
   \<and> get_by_id quiet (get_of ''id'' ''0102030405060708090a0b0c'') empty_upload =
     (Respond \<lparr>status = 200,
        headers = [(''Content-Type'', ''image/png''),
                   (''Cache-Control'', ''public, max-age=31536000''),
                   (''Content-Length'', ''0'')],
        body = RawBody []\<rparr>, empty_upload)"
  by (simp add: get_by_id_def get_of_def Params_def sample_hex quiet_def mongoClient_def
      FindOne_def empty_upload_eq send_image_def NewBucket_def DownloadToStream_def chunks_of_def
      reassemble_def metadata_ext_def image_response Itoa_0)

text \<open>
  C3, as the code has it. For a well-formed identifier, a reachable database and a lookup that
  does not itself fail, download by id answers 404 exactly when no record of \<open>images.files\<close>
  carries the identifier; the chunks play no part in that. When a record is found that carries
  a string \<open>ext\<close>, the bucket is created and the read is not interrupted, the answer is 200 and
  its body is the concatenation of the identifier's chunks in ascending \<open>sequenceNumber\<close>
  order (empty when there are none).
\<close>

theorem not_found_iff_no_metadata_record:
  assumes "ObjectIDFromHex (Params req ''id'') = Inr oid" and "mongoClient e = Inr ()"
    and "find_err e = None"
  shows "(fst (get_by_id e req st) = Respond (error_response StatusNotFound ''Avatar not found'')
            \<longleftrightarrow> \<not> (\<exists>d\<in>set (files st). map_of d ''_id'' = Some (BObjectID oid)))
    \<and> (\<forall>doc ext. FindOne e (files st) ''_id'' (BObjectID oid) = Inr doc \<longrightarrow>
          metadata_ext doc = Some ext \<longrightarrow> bucket_err e = None \<longrightarrow> download_fault e = None \<longrightarrow>
          (\<exists>r. get_by_id e req st = (Respond r, st) \<and> status r = StatusOK \<and>
               body r = RawBody (concat (map data (sort_key sequenceNumber
                          (filter (\<lambda>c. objectId c = oid) (chunks st)))))))"
proof (intro conjI allI impI)
  show "fst (get_by_id e req st) = Respond (error_response StatusNotFound ''Avatar not found'')
            \<longleftrightarrow> \<not> (\<exists>d\<in>set (files st). map_of d ''_id'' = Some (BObjectID oid))"
  proof (cases "FindOne e (files st) ''_id'' (BObjectID oid)")
    case (Inl m)
    then have "\<not> (\<exists>d\<in>set (files st). map_of d ''_id'' = Some (BObjectID oid))"
      using FindOne_cases[OF assms(3), of "files st" "''_id''" "BObjectID oid"] by blast
    with get_by_id_not_found[OF assms(1,2) Inl] show ?thesis by simp
  next
    case (Inr doc)
    then have "\<exists>d\<in>set (files st). map_of d ''_id'' = Some (BObjectID oid)"
      using FindOne_in_files by blast
    with get_by_id_found[OF assms(1,2) Inr] show ?thesis by (simp add: send_image_not_404)
  qed
next
  fix doc ext
  assume a: "FindOne e (files st) ''_id'' (BObjectID oid) = Inr doc" "metadata_ext doc = Some ext"
    "bucket_err e = None" "download_fault e = None"
  show "\<exists>r. get_by_id e req st = (Respond r, st) \<and> status r = StatusOK \<and>
               body r = RawBody (concat (map data (sort_key sequenceNumber
                          (filter (\<lambda>c. objectId c = oid) (chunks st)))))"
    using get_by_id_found[OF assms(1,2) a(1)] send_image_ok[OF a(3,2)] a(4)
    by (simp add: image_response fst_DownloadToStream reassemble_def chunks_of_def)
qed

theorem not_found_iff_no_metadata_record_witness:
  "fst (get_by_id quiet (get_of ''id'' ''0102030405060708090a0b0c'') empty_store) =
      Respond (error_response 404 ''Avatar not found'')
   \<and> fst (get_by_id quiet (get_of ''id'' ''0102030405060708090a0b0c'') stored) \<noteq>
      Respond (error_response 404 ''Avatar not found'')
   \<and> (\<exists>r. get_by_id quiet (get_of ''id'' ''0102030405060708090a0b0c'') stored = (Respond r, stored)
          \<and> status r = StatusOK \<and> body r = RawBody [1, 2, 3, 4, 5])"
proof -
  have p: "ObjectIDFromHex (Params (get_of ''id'' ''0102030405060708090a0b0c'') ''id'')
      = Inr [1, 2, 3, 4, 5, 6, 7, 8, 9, 10, 11, 12]"
    by (simp add: sample_lookups sample_hex)
  have f: "find_err quiet = None" by (simp add: quiet_def)
  have found: "FindOne quiet (files stored) ''_id'' (BObjectID [1, 2, 3, 4, 5, 6, 7, 8, 9, 10, 11, 12])
      = Inr [(''_id'', BObjectID [1, 2, 3, 4, 5, 6, 7, 8, 9, 10, 11, 12]),
                (''length'', BInt64 5), (''chunkSize'', BInt32 4), (''uploadDate'', BDateTime 0),
                (''filename'', BString ''a.png''),
                (''metadata'', BDocument [(''ext'', BString ''.png'')])]"
    by (simp add: FindOne_def quiet_def stored_eq)
  note t = not_found_iff_no_metadata_record [OF p sample_lookups(1) f]
  from t [of empty_store] have a: "fst (get_by_id quiet (get_of ''id'' ''0102030405060708090a0b0c'') empty_store) =
      Respond (error_response 404 ''Avatar not found'')"
    by (simp add: empty_store_def)
  from t [of stored] have b: "fst (get_by_id quiet (get_of ''id'' ''0102030405060708090a0b0c'') stored) \<noteq>
      Respond (error_response 404 ''Avatar not found'')"
    by (simp add: stored_eq)
  from t [of stored] found have c: "\<exists>r. get_by_id quiet (get_of ''id'' ''0102030405060708090a0b0c'') stored = (Respond r, stored)
          \<and> status r = StatusOK \<and> body r = RawBody [1, 2, 3, 4, 5]"
    by (simp add: metadata_ext_def quiet_def stored_eq)
  from a b c show ?thesis by blast
qed

section \<open>The dropped read error\<close>

text \<open>
  C9 as stated fails: a metadata record exists, yet the handler does not answer 200. The record
  has no \<open>metadata\<close> sub-document and the type assertion panics.
\<close>

theorem record_without_ext_panics:
  "get_by_id quiet (get_of ''id'' ''0102030405060708090a0b0c'') bare_record =
     (Panic ''interface conversion'', bare_record)"
  by (simp add: get_by_id_def get_of_def Params_def sample_hex quiet_def mongoClient_def
      FindOne_def bare_record_def send_image_def NewBucket_def metadata_ext_def)

text \<open>
  C9, as the code has it. Let the database be reachable, the bucket be created, and the lookup
  find a record that carries a string \<open>ext\<close>. Then either download handler answers 200 with
  whatever reached the buffer, whatever error the chunk read returned: when the id has no
  chunks the read fails and the body is empty, and when the read breaks off after \<open>k\<close> bytes
  with an error the body is those \<open>k\<close> bytes.
\<close>

theorem download_ignores_read_error:
  assumes "mongoClient e = Inr ()" and "bucket_err e = None" and "metadata_ext doc = Some ext"
  shows "(ObjectIDFromHex (Params req ''id'') = Inr oid \<longrightarrow>
          FindOne e (files st) ''_id'' (BObjectID oid) = Inr doc \<longrightarrow>
            (\<exists>r. get_by_id e req st = (Respond r, st) \<and> status r = StatusOK \<and>
               body r = RawBody (fst (DownloadToStream e (Bucket ''images'') st oid)) \<and>
               (download_fault e = None \<longrightarrow> chunks_of st oid = [] \<longrightarrow>
                  snd (DownloadToStream e (Bucket ''images'') st oid) \<noteq> None \<and>
                  body r = RawBody []) \<and>
               (\<forall>k err. download_fault e = Some (k, err) \<longrightarrow>
                  snd (DownloadToStream e (Bucket ''images'') st oid) = Some err \<and>
                  body r = RawBody (take k (reassemble st oid)))))
    \<and> (FindOne e (files st) ''filename'' (BString (Params req ''name'')) = Inr doc \<longrightarrow>
            (\<exists>r. get_by_name e req st = (Respond r, st) \<and> status r = StatusOK \<and>
               body r = RawBody (fst (DownloadToStreamByName e (Bucket ''images'') st
                                        (Params req ''name'')))))"
  using get_by_id_found[OF _ assms(1), of req oid st doc] get_by_name_found[OF assms(1), of st req doc]
    send_image_ok[OF assms(2,3)]
  by (auto simp: image_response DownloadToStream_def)

theorem download_ignores_read_error_witness:
  "(\<exists>r. get_by_id broken_read (get_of ''id'' ''0102030405060708090a0b0c'') stored = (Respond r, stored)
        \<and> status r = StatusOK \<and> body r = RawBody [1, 2])
   \<and> (\<exists>r. get_by_id quiet (get_of ''id'' ''0102030405060708090a0b0c'') empty_upload
             = (Respond r, empty_upload)
        \<and> status r = StatusOK \<and> body r = RawBody [])
   \<and> (\<exists>r. get_by_name quiet (get_of ''name'' ''a.png'') stored = (Respond r, stored)
        \<and> status r = StatusOK \<and> body r = RawBody [1, 2, 3, 4, 5])"
proof -
  have p: "ObjectIDFromHex (Params (get_of ''id'' ''0102030405060708090a0b0c'') ''id'')
      = Inr [1, 2, 3, 4, 5, 6, 7, 8, 9, 10, 11, 12]"
    by (simp add: sample_lookups sample_hex)
  have b: "mongoClient broken_read = Inr ()" "bucket_err broken_read = None"
    "find_err broken_read = None" "download_fault broken_read = Some (2, ''unexpected EOF'')"
    by (simp_all add: broken_read_def quiet_def mongoClient_def)
  have q: "bucket_err quiet = None" "find_err quiet = None" "download_fault quiet = None"
    by (simp_all add: quiet_def)
  have re: "reassemble stored [1, 2, 3, 4, 5, 6, 7, 8, 9, 10, 11, 12] = [1, 2, 3, 4, 5]"
    by (simp add: reassemble_def chunks_of_def stored_eq)
  have e_doc: "FindOne quiet (files empty_upload) ''_id'' (BObjectID [1, 2, 3, 4, 5, 6, 7, 8, 9, 10, 11, 12])
      = Inr (hd (files empty_upload))" "metadata_ext (hd (files empty_upload)) = Some ''.png''"
    "chunks_of empty_upload [1, 2, 3, 4, 5, 6, 7, 8, 9, 10, 11, 12] = []"
    by (simp_all add: FindOne_def quiet_def empty_upload_eq metadata_ext_def chunks_of_def)
  from download_ignores_read_error [OF b(1,2) stored_doc(3), of "get_of ''id'' ''0102030405060708090a0b0c''"
      "[1, 2, 3, 4, 5, 6, 7, 8, 9, 10, 11, 12]" stored] p b(3,4)
  have 1: "\<exists>r. get_by_id broken_read (get_of ''id'' ''0102030405060708090a0b0c'') stored = (Respond r, stored)
        \<and> status r = StatusOK \<and> body r = RawBody [1, 2]"
    by (auto simp: stored_doc(1) re)
  from download_ignores_read_error [OF sample_lookups(1) q(1) e_doc(2), of "get_of ''id'' ''0102030405060708090a0b0c''"
      "[1, 2, 3, 4, 5, 6, 7, 8, 9, 10, 11, 12]" empty_upload] p q e_doc(1,3)
  have 2: "\<exists>r. get_by_id quiet (get_of ''id'' ''0102030405060708090a0b0c'') empty_upload
             = (Respond r, empty_upload)
        \<and> status r = StatusOK \<and> body r = RawBody []"
    by auto
  have dl: "fst (DownloadToStreamByName quiet (Bucket ''images'') stored ''a.png'') = [1, 2, 3, 4, 5]"
  proof -
    have "DownloadToStreamByName quiet (Bucket ''images'') stored ''a.png'' =
        DownloadToStream quiet (Bucket ''images'') stored [1, 2, 3, 4, 5, 6, 7, 8, 9, 10, 11, 12]"
      by (simp add: DownloadToStreamByName_def stored_eq)
    then show ?thesis by (simp add: fst_DownloadToStream q re)
  qed
  from download_ignores_read_error [OF sample_lookups(1) q(1) stored_doc(3), of "get_of ''name'' ''a.png''" "[]" stored] q(2)
  have 3: "\<exists>r. get_by_name quiet (get_of ''name'' ''a.png'') stored = (Respond r, stored)
        \<and> status r = StatusOK \<and> body r = RawBody [1, 2, 3, 4, 5]"
    by (simp add: sample_lookups stored_doc(2) dl)
  from 1 2 3 show ?thesis by blast
qed

section \<open>The metadata type assertions\<close>












end
